theory Spec2Isabelle
  imports Complex_Main
begin

section \<open>JavaScript numbers\<close>

text \<open>
  A JavaScript \<^verbatim>\<open>number\<close> given to the code is modelled by a real. A division can
  leave the reals: its result is a \<open>jsnum\<close>, with the IEEE outcomes of dividing by
  zero. A function that returns a record of reals returns \<open>None\<close> exactly on the inputs
  where the source's record would hold \<^verbatim>\<open>NaN\<close> or an infinity.
\<close>

datatype jsnum = Finite real | PosInfinity | NegInfinity | NaN

definition jsDivide :: "real \<Rightarrow> real \<Rightarrow> jsnum" where
  \<comment> \<open>\<^verbatim>\<open>a / b\<close> on finite numbers.\<close>
  "jsDivide a b =
     (if b \<noteq> 0 then Finite (a / b)
      else if 0 < a then PosInfinity
      else if a < 0 then NegInfinity
      else NaN)"

definition jsGreater :: "jsnum \<Rightarrow> real \<Rightarrow> bool" where
  \<comment> \<open>\<^verbatim>\<open>x > y\<close> for a finite \<open>y\<close>; every comparison with \<^verbatim>\<open>NaN\<close> is false.\<close>
  "jsGreater x y =
     (case x of
        Finite a \<Rightarrow> a > y
      | PosInfinity \<Rightarrow> True
      | NegInfinity \<Rightarrow> False
      | NaN \<Rightarrow> False)"

definition orElse :: "real \<Rightarrow> real \<Rightarrow> real" where
  \<comment> \<open>\<^verbatim>\<open>a || b\<close> on numbers: \<^verbatim>\<open>0\<close> is falsy, every other real is truthy.\<close>
  "orElse a b = (if a = 0 then b else a)"

definition given :: "real option \<Rightarrow> bool" where
  \<comment> \<open>Truthiness of an optional number: \<^verbatim>\<open>undefined\<close> and \<^verbatim>\<open>0\<close> are falsy.\<close>
  "given m = (case m of None \<Rightarrow> False | Some v \<Rightarrow> v \<noteq> 0)"

section \<open>Size modes and the measured environment (types.ts)\<close>

datatype SizeMode =
    Fixed real real
  | Fill
  | Viewport
  | Aspect real "real option" "real option"

record dims =
  width :: real
  height :: real

text \<open>
  What the browser reports when a size is computed: the container's client box, the
  window's inner box and the display's device pixel ratio.
\<close>

record dom_env =
  clientWidth :: real
  clientHeight :: real
  innerWidth :: real
  innerHeight :: real
  devicePixelRatio :: real

section \<open>useResizeObserver.ts: calculateSize\<close>

definition finiteDims :: "real \<times> jsnum \<Rightarrow> dims option" where
  \<comment> \<open>The record \<^verbatim>\<open>{ width, height }\<close>, when both are finite.\<close>
  "finiteDims wh =
     (case snd wh of
        Finite h \<Rightarrow> Some \<lparr>width = fst wh, height = h\<rparr>
      | _ \<Rightarrow> None)"

definition aspectBranch :: "real \<Rightarrow> real option \<Rightarrow> real option \<Rightarrow> dom_env \<Rightarrow> real \<times> jsnum" where
  \<comment> \<open>The block of \<^verbatim>\<open>case 'aspect'\<close>: the final \<^verbatim>\<open>width\<close> and \<^verbatim>\<open>height\<close>.\<close>
  "aspectBranch aspectRatio maxWidth maxHeight env =
     (let containerWidth = orElse (clientWidth env) (innerWidth env);
          containerHeight = orElse (clientHeight env) (innerHeight env);
          w0 = containerWidth;
          h0 = jsDivide w0 aspectRatio;
          (w1, h1) = (if jsGreater h0 containerHeight
                      then (containerHeight * aspectRatio, Finite containerHeight)
                      else (w0, h0));
          (w2, h2) = (if given maxWidth \<and> w1 > the maxWidth
                      then (the maxWidth, jsDivide (the maxWidth) aspectRatio)
                      else (w1, h1));
          (w3, h3) = (if given maxHeight \<and> jsGreater h2 (the maxHeight)
                      then (the maxHeight * aspectRatio, Finite (the maxHeight))
                      else (w2, h2))
      in (w3, h3))"

definition calculateSize :: "SizeMode \<Rightarrow> dom_env \<Rightarrow> dims option" where
  "calculateSize sizeMode env =
     (case sizeMode of
        Fixed w h \<Rightarrow> Some \<lparr>width = w, height = h\<rparr>
      | Viewport \<Rightarrow> Some \<lparr>width = innerWidth env, height = innerHeight env\<rparr>
      | Aspect aspectRatio maxWidth maxHeight \<Rightarrow>
          finiteDims (aspectBranch aspectRatio maxWidth maxHeight env)
      | Fill \<Rightarrow>
          Some \<lparr>width = orElse (clientWidth env) 300,
                height = orElse (clientHeight env) 150\<rparr>)"

text \<open>
  The aspect computation as the specification words it: start from the container's
  width, derive the height, refit from the height when it overflows the container, then
  clamp the width to \<open>maxWidth\<close> and afterwards the height to \<open>maxHeight\<close>, each
  time recomputing the other side from the ratio. Its division and comparisons are
  JavaScript's.
\<close>

definition aspectAsSpecified :: "real \<Rightarrow> real option \<Rightarrow> real option \<Rightarrow> real \<Rightarrow> real \<Rightarrow> real \<times> jsnum" where
  "aspectAsSpecified ratio maxWidth maxHeight containerW containerH =
     (let w0 = containerW;
          h0 = jsDivide w0 ratio;
          (w1, h1) = (if jsGreater h0 containerH
                      then (containerH * ratio, Finite containerH)
                      else (w0, h0));
          (w2, h2) = (case maxWidth of
                        None \<Rightarrow> (w1, h1)
                      | Some m \<Rightarrow> if w1 > m then (m, jsDivide m ratio) else (w1, h1));
          (w3, h3) = (case maxHeight of
                        None \<Rightarrow> (w2, h2)
                      | Some m \<Rightarrow> if jsGreater h2 m then (m * ratio, Finite m) else (w2, h2))
      in (w3, h3))"

definition effective :: "real option \<Rightarrow> real option" where
  \<comment> \<open>A limit that the source's truthiness test lets through.\<close>
  "effective m = (if given m then m else None)"


section \<open>constants.ts\<close>

definition DEFAULT_VERTEX_SHADER :: string where
  "DEFAULT_VERTEX_SHADER =
     ''\<newline>varying vec2 vUv;\<newline>\<newline>void main() {\<newline>  vUv = uv;\<newline>  gl_Position = projectionMatrix * modelViewMatrix * vec4(position, 1.0);\<newline>}\<newline>''"

definition FALLBACK_FRAGMENT_SHADER :: string where
  "FALLBACK_FRAGMENT_SHADER =
     ''\<newline>varying vec2 vUv;\<newline>\<newline>void main() {\<newline>  gl_FragColor = vec4(1.0, 0.0, 1.0, 1.0);\<newline>}\<newline>''"

section \<open>Uniform values and the uniform table\<close>

text \<open>
  \<^verbatim>\<open>UniformValue\<close> of types.ts: a number, a two-component vector, a numeric array
  (\<^verbatim>\<open>number[]\<close> or \<^verbatim>\<open>Float32Array\<close>), or another three.js object (vector of higher
  arity, matrix, colour, texture), whose contents are not followed.
\<close>

datatype UniformValue =
    Num real
  | Vec2 real real
  | NumArray "real list"
  | Opaque nat

text \<open>
  The table is the object literal built in the setup effect: each own property is an
  \<^verbatim>\<open>{ value }\<close> cell. The map gives the cell's value for every own property.
\<close>

type_synonym uniform_table = "string \<rightharpoonup> UniformValue"

text \<open>
  \<^verbatim>\<open>uniforms[name]\<close> is an ordinary property read, so a name that is not an own
  property is looked up on \<^verbatim>\<open>Object.prototype\<close>: its methods are function objects
  (truthy, and able to carry a \<^verbatim>\<open>value\<close> property of their own), and \<^verbatim>\<open>__proto__\<close>
  yields \<^verbatim>\<open>Object.prototype\<close> itself.
\<close>

definition objectPrototypeMethods :: "string list" where
  "objectPrototypeMethods =
     [''constructor'', ''hasOwnProperty'', ''isPrototypeOf'', ''propertyIsEnumerable'',
      ''toLocaleString'', ''toString'', ''valueOf'', ''__defineGetter__'',
      ''__defineSetter__'', ''__lookupGetter__'', ''__lookupSetter__'']"

datatype slot = OwnCell UniformValue | InheritedMethod | ObjectPrototype

definition readSlot :: "uniform_table \<Rightarrow> string \<Rightarrow> slot option" where
  "readSlot us name =
     (case us name of
        Some v \<Rightarrow> Some (OwnCell v)
      | None \<Rightarrow>
          if name \<in> set objectPrototypeMethods then Some InheritedMethod
          else if name = ''__proto__'' then Some ObjectPrototype
          else None)"

text \<open>
  \<^verbatim>\<open>cell.value.set(x, y)\<close> and \<^verbatim>\<open>cell.value.copy(v)\<close> on a built-in vector uniform.
  They are methods of \<^verbatim>\<open>THREE.Vector2\<close>; on a number or an array the call raises a
  TypeError, and on another three.js object it runs library code that is not followed
  here. Both are \<open>None\<close>. An absent cell is skipped by the source's guard.
\<close>

definition writeVec2 :: "uniform_table \<Rightarrow> string \<Rightarrow> real \<times> real \<Rightarrow> uniform_table option" where
  "writeVec2 us name xy =
     (case us name of
        None \<Rightarrow> Some us
      | Some (Vec2 _ _) \<Rightarrow> Some (us(name \<mapsto> Vec2 (fst xy) (snd xy)))
      | Some _ \<Rightarrow> None)"

record material =
  uniforms :: uniform_table
  vertexShaderSrc :: string
  fragmentShaderSrc :: string

text \<open>
  The WebGL renderer. With \<^verbatim>\<open>preserveDrawingBuffer\<close> its canvas keeps what the last
  \<^verbatim>\<open>render\<close> call drew; a frame is determined by the material as it was at that call.
\<close>

record renderer =
  rendererId :: nat
  antialiasFlag :: bool
  alphaFlag :: bool
  rendererPixelRatio :: real
  rendererSize :: dims
  drawingBuffer :: "material option"

text \<open>
  \<^verbatim>\<open>renderer.setSize(w, h)\<close> of three.js assigns the canvas its width and height in
  device pixels, \<^verbatim>\<open>Math.floor(w * pixelRatio)\<close> and \<^verbatim>\<open>Math.floor(h * pixelRatio)\<close>. A
  WebGL canvas that is given a new size has its drawing buffer cleared; one that is
  assigned the size it has keeps it.
\<close>

definition canvasPixels :: "renderer \<Rightarrow> int \<times> int" where
  "canvasPixels r =
     (\<lfloor>width (rendererSize r) * rendererPixelRatio r\<rfloor>,
      \<lfloor>height (rendererSize r) * rendererPixelRatio r\<rfloor>)"

definition setSize :: "real \<Rightarrow> real \<Rightarrow> renderer \<Rightarrow> renderer" where
  "setSize w h r =
     (let r' = r\<lparr>rendererSize := \<lparr>width = w, height = h\<rparr>\<rparr>
      in if canvasPixels r' = canvasPixels r then r' else r'\<lparr>drawingBuffer := None\<rparr>)"

section \<open>Props of the component (types.ts, with the defaults of ShaderCanvasInner)\<close>

datatype PixelRatio = Device | Capped | Explicit real

text \<open>
  \<open>size\<close> is \<open>None\<close> when the prop is omitted; the default \<^verbatim>\<open>{ mode: 'fill' }\<close> is
  then a new object at every render. A given size object carries its identity: the
  effect's dependency list compares objects by identity.
\<close>

record props =
  fragmentShader :: string
  vertexShader :: "string option"
  customUniforms :: "(string \<times> UniformValue) list option"
  size :: "(nat \<times> SizeMode) option"
  pixelRatio :: PixelRatio
  autoPlay :: bool
  initialTime :: real
  playbackSpeed :: real
  enableTimeUniform :: bool
  enableResolutionUniform :: bool
  enableMouseUniform :: bool
  transparent :: bool
  antialias :: bool

definition defaultProps :: "string \<Rightarrow> props" where
  "defaultProps fs =
     \<lparr>fragmentShader = fs, vertexShader = None, customUniforms = None, size = None,
      pixelRatio = Capped, autoPlay = True, initialTime = 0, playbackSpeed = 1,
      enableTimeUniform = True, enableResolutionUniform = True, enableMouseUniform = True,
      transparent = False, antialias = True\<rparr>"

definition vertexShaderOf :: "props \<Rightarrow> string" where
  "vertexShaderOf p = (case vertexShader p of None \<Rightarrow> DEFAULT_VERTEX_SHADER | Some v \<Rightarrow> v)"

definition sizeModeOf :: "props \<Rightarrow> SizeMode" where
  "sizeModeOf p = (case size p of None \<Rightarrow> Fill | Some (_, m) \<Rightarrow> m)"

definition resolvePixelRatio :: "PixelRatio \<Rightarrow> dom_env \<Rightarrow> real" where
  "resolvePixelRatio pr env =
     (case pr of
        Device \<Rightarrow> devicePixelRatio env
      | Capped \<Rightarrow> min (devicePixelRatio env) 2
      | Explicit r \<Rightarrow> r)"

text \<open>The dependency list of the main setup effect, in the order it is written.\<close>

record deps =
  depFragmentShader :: string
  depVertexShader :: string
  depTransparent :: bool
  depAntialias :: bool
  depActualPixelRatio :: real
  depSize :: "nat option"
  depEnableTimeUniform :: bool
  depEnableResolutionUniform :: bool
  depEnableMouseUniform :: bool
  depAutoPlay :: bool

definition depsOf :: "props \<Rightarrow> real \<Rightarrow> deps" where
  "depsOf p actualPixelRatio =
     \<lparr>depFragmentShader = fragmentShader p, depVertexShader = vertexShaderOf p,
      depTransparent = transparent p, depAntialias = antialias p,
      depActualPixelRatio = actualPixelRatio, depSize = map_option fst (size p),
      depEnableTimeUniform = enableTimeUniform p,
      depEnableResolutionUniform = enableResolutionUniform p,
      depEnableMouseUniform = enableMouseUniform p, depAutoPlay = autoPlay p\<rparr>"

definition sameDeps :: "deps \<Rightarrow> deps \<Rightarrow> bool" where
  \<comment> \<open>Element-wise \<^verbatim>\<open>Object.is\<close>; a defaulted size object is never the previous one.\<close>
  "sameDeps a b \<longleftrightarrow>
     depFragmentShader a = depFragmentShader b \<and> depVertexShader a = depVertexShader b \<and>
     depTransparent a = depTransparent b \<and> depAntialias a = depAntialias b \<and>
     depActualPixelRatio a = depActualPixelRatio b \<and>
     depSize a \<noteq> None \<and> depSize a = depSize b \<and>
     depEnableTimeUniform a = depEnableTimeUniform b \<and>
     depEnableResolutionUniform a = depEnableResolutionUniform b \<and>
     depEnableMouseUniform a = depEnableMouseUniform b \<and> depAutoPlay a = depAutoPlay b"


section \<open>State of one ShaderCanvas instance\<close>

text \<open>
  The two animation callbacks handed to \<^verbatim>\<open>requestAnimationFrame\<close>: \<^verbatim>\<open>animate\<close> of the
  setup effect and \<^verbatim>\<open>animate\<close> defined inside \<^verbatim>\<open>play\<close>.
\<close>

datatype callback = EffectAnimate | PlayAnimate

text \<open>
  The refs of the component, what React keeps for it (current props, the memoised pixel
  ratio, the dependency list and cleanup of the last effect run), the browser state the
  code acts on, and the calls it makes to its collaborators. \<open>methodValues\<close> holds the
  \<^verbatim>\<open>value\<close> property that a write through an inherited name leaves on a method of
  \<^verbatim>\<open>Object.prototype\<close>.

  The caller's callbacks are recorded as the list of their calls (\<open>onFrameCalls\<close>,
  \<open>onResizeCalls\<close>, \<open>onErrorCalls\<close>); they do not act back on the instance.
  Creating the WebGL renderer is taken to succeed, and a custom uniform is taken not to
  be keyed \<^verbatim>\<open>__proto__\<close>.
\<close>

record shader_canvas =
  containerRef :: bool
  rendererRef :: "renderer option"
  sceneRef :: "nat option"
  cameraRef :: "nat option"
  materialRef :: "material option"
  meshRef :: "nat option"
  rafIdRef :: "nat option"
  timeRef :: real
  isPlayingRef :: bool
  lastTimestampRef :: "real option"
  playbackSpeedRef :: real
  mouseRef :: "real \<times> real"
  mouseNormalizedRef :: "real \<times> real"
  sizeRef :: dims
  currentProps :: props
  pixelRatioMemo :: "PixelRatio \<times> real"
  effectDeps :: deps
  effectCleanup :: "bool option"
  env :: dom_env
  containerChildren :: "nat list"
  rafQueue :: "(nat \<times> callback) list"
  nextRafId :: nat
  mouseListeners :: nat
  resizeListeners :: nat
  methodValues :: "string \<rightharpoonup> UniformValue"
  renderersCreated :: nat
  renderersDisposed :: "nat list"
  renderCalls :: nat
  onFrameCalls :: "(real \<times> real) list"
  onResizeCalls :: "(real \<times> real) list"
  onErrorCalls :: "string list"

subsection \<open>The browser's frame queue\<close>

definition requestAnimationFrame :: "callback \<Rightarrow> shader_canvas \<Rightarrow> nat \<times> shader_canvas" where
  "requestAnimationFrame cb s =
     (nextRafId s,
      s\<lparr>rafQueue := rafQueue s @ [(nextRafId s, cb)], nextRafId := nextRafId s + 1\<rparr>)"

definition cancelAnimationFrame :: "nat \<Rightarrow> shader_canvas \<Rightarrow> shader_canvas" where
  "cancelAnimationFrame i s = s\<lparr>rafQueue := filter (\<lambda>(j, _). j \<noteq> i) (rafQueue s)\<rparr>"

subsection \<open>Rendering\<close>

text \<open>
  \<^verbatim>\<open>renderer.render(scene, camera)\<close>: the mesh is drawn with the material as it is
  now. The closures of the setup effect hold the objects the refs hold between setup
  and cleanup, and cleanup cancels the pending frame before it clears the refs; a call
  with a cleared ref is outside that life span and is \<open>None\<close>.
\<close>

definition renderScene :: "shader_canvas \<Rightarrow> shader_canvas option" where
  "renderScene s =
     (case rendererRef s of
        None \<Rightarrow> None
      | Some r \<Rightarrow>
          Some (s\<lparr>rendererRef := Some (r\<lparr>drawingBuffer := materialRef s\<rparr>),
                  renderCalls := renderCalls s + 1\<rparr>))"

subsection \<open>The setup effect: uniforms, updateSize, animate\<close>

definition buildUniforms :: "props \<Rightarrow> uniform_table" where
  "buildUniforms p =
     (let u0 = Map.empty;
          u1 = (if enableTimeUniform p then u0(''u_time'' \<mapsto> Num 0) else u0);
          u2 = (if enableResolutionUniform p then u1(''u_resolution'' \<mapsto> Vec2 1 1) else u1);
          u3 = (if enableMouseUniform p
                then u2(''u_mouse'' \<mapsto> Vec2 0 0, ''u_mouseNormalized'' \<mapsto> Vec2 0 0)
                else u2)
      in case customUniforms p of
           None \<Rightarrow> u3
         | Some cs \<Rightarrow> fold (\<lambda>(key, v) u. u(key \<mapsto> v)) cs u3)"

definition updateSize :: "shader_canvas \<Rightarrow> shader_canvas option" where
  "updateSize s =
     (case (rendererRef s, materialRef s) of
        (Some r, Some m) \<Rightarrow>
          let e = env s;
              actualPixelRatio = snd (pixelRatioMemo s);
              (w, h) = (case sizeModeOf (currentProps s) of
                          Viewport \<Rightarrow> (innerWidth e, innerHeight e)
                        | Fixed fw fh \<Rightarrow> (fw, fh)
                        | _ \<Rightarrow> (orElse (clientWidth e) 300, orElse (clientHeight e) 150));
              sz = \<lparr>width = w * actualPixelRatio, height = h * actualPixelRatio\<rparr>
          in (case writeVec2 (uniforms m) ''u_resolution'' (width sz, height sz) of
                None \<Rightarrow> None
              | Some us \<Rightarrow>
                  Some (s\<lparr>rendererRef := Some (setSize w h r),
                          sizeRef := sz,
                          materialRef := Some (m\<lparr>uniforms := us\<rparr>),
                          onResizeCalls := onResizeCalls s @ [(w, h)]\<rparr>))
      | _ \<Rightarrow> None)"

definition advanceClock :: "real \<Rightarrow> shader_canvas \<Rightarrow> real \<times> shader_canvas" where
  \<comment> \<open>The four clock lines shared, textually, by both animate callbacks.\<close>
  "advanceClock timestamp s =
     (let lastTs = (case lastTimestampRef s of None \<Rightarrow> timestamp | Some l \<Rightarrow> l);
          deltaMs = timestamp - lastTs;
          deltaTime = (deltaMs / 1000) * playbackSpeedRef s
      in (deltaTime, s\<lparr>lastTimestampRef := Some timestamp, timeRef := timeRef s + deltaTime\<rparr>))"

definition writeTime :: "real \<Rightarrow> material \<Rightarrow> material" where
  \<comment> \<open>\<^verbatim>\<open>if (material.uniforms.u_time) material.uniforms.u_time.value = t\<close>\<close>
  "writeTime t m =
     (if uniforms m ''u_time'' \<noteq> None then m\<lparr>uniforms := (uniforms m)(''u_time'' \<mapsto> Num t)\<rparr>
      else m)"

definition animateEffect :: "real \<Rightarrow> shader_canvas \<Rightarrow> shader_canvas option" where
  "animateEffect timestamp s =
     (if \<not> isPlayingRef s then Some s
      else
        let (deltaTime, s1) = advanceClock timestamp s
        in (case materialRef s1 of
              None \<Rightarrow> None
            | Some m \<Rightarrow>
                (let m1 = writeTime (timeRef s1) m
                 in (case writeVec2 (uniforms m1) ''u_mouse'' (mouseRef s1) of
                       None \<Rightarrow> None
                     | Some us2 \<Rightarrow>
                         (case writeVec2 us2 ''u_mouseNormalized'' (mouseNormalizedRef s1) of
                            None \<Rightarrow> None
                          | Some us3 \<Rightarrow>
                              (let s2 = s1\<lparr>materialRef := Some (m1\<lparr>uniforms := us3\<rparr>),
                                          onFrameCalls :=
                                            onFrameCalls s1 @ [(timeRef s1, deltaTime)]\<rparr>
                               in (case renderScene s2 of
                                     None \<Rightarrow> None
                                   | Some s3 \<Rightarrow>
                                       (let (i, s4) = requestAnimationFrame EffectAnimate s3
                                        in Some (s4\<lparr>rafIdRef := Some i\<rparr>)))))))))"

definition setupEffect :: "shader_canvas \<Rightarrow> shader_canvas option" where
  \<comment> \<open>The body of the main setup effect.\<close>
  "setupEffect s =
     (if \<not> containerRef s then Some (s\<lparr>effectCleanup := None\<rparr>)
      else
        let p = currentProps s;
            actualPixelRatio = snd (pixelRatioMemo s);
            n = renderersCreated s;
            r = \<lparr>rendererId = n, antialiasFlag = antialias p, alphaFlag = transparent p,
                 rendererPixelRatio = actualPixelRatio,
                 rendererSize = \<lparr>width = 300, height = 150\<rparr>, drawingBuffer = None\<rparr>;
            m = \<lparr>uniforms = buildUniforms p, vertexShaderSrc = vertexShaderOf p,
                 fragmentShaderSrc = fragmentShader p\<rparr>;
            s1 = s\<lparr>renderersCreated := n + 1, rendererRef := Some r,
                    containerChildren := containerChildren s @ [n],
                    sceneRef := Some n, cameraRef := Some n,
                    materialRef := Some m, meshRef := Some n\<rparr>
        in case updateSize s1 of
             None \<Rightarrow> None
           | Some s2 \<Rightarrow>
               (case (if autoPlay p
                      then (let (i, s3) = requestAnimationFrame EffectAnimate
                                            (s2\<lparr>isPlayingRef := True\<rparr>)
                            in Some (s3\<lparr>rafIdRef := Some i\<rparr>))
                      else renderScene s2) of
                  None \<Rightarrow> None
                | Some s4 \<Rightarrow>
                    Some (s4\<lparr>mouseListeners :=
                                 (if enableMouseUniform p then mouseListeners s4 + 1
                                  else mouseListeners s4),
                               resizeListeners := resizeListeners s4 + 1,
                               effectCleanup := Some (enableMouseUniform p)\<rparr>)))"

definition cleanup :: "bool \<Rightarrow> shader_canvas \<Rightarrow> shader_canvas" where
  \<comment> \<open>The function the effect returns; its argument is the \<^verbatim>\<open>enableMouseUniform\<close> it closed over.\<close>
  "cleanup mouseWasEnabled s =
     (let s1 = (case rafIdRef s of None \<Rightarrow> s | Some i \<Rightarrow> cancelAnimationFrame i s);
          s2 = s1\<lparr>mouseListeners :=
                    (if mouseWasEnabled then mouseListeners s1 - 1 else mouseListeners s1),
                  resizeListeners := resizeListeners s1 - 1\<rparr>;
          s3 = (case rendererRef s2 of
                  None \<Rightarrow> s2
                | Some r \<Rightarrow>
                    s2\<lparr>renderersDisposed := renderersDisposed s2 @ [rendererId r],
                       containerChildren := removeAll (rendererId r) (containerChildren s2)\<rparr>)
      in s3\<lparr>rendererRef := None, sceneRef := None, cameraRef := None,
            materialRef := None, meshRef := None\<rparr>)"


subsection \<open>React: first render and re-render\<close>

text \<open>
  The state a first render leaves before its effects run: every \<^verbatim>\<open>useRef\<close> at its
  initial value, the container \<^verbatim>\<open>div\<close> attached, nothing created yet.
\<close>

definition initialState :: "props \<Rightarrow> dom_env \<Rightarrow> shader_canvas" where
  "initialState p e =
     (let actualPixelRatio = resolvePixelRatio (pixelRatio p) e
      in \<lparr>containerRef = True, rendererRef = None, sceneRef = None, cameraRef = None,
          materialRef = None, meshRef = None, rafIdRef = None,
          timeRef = initialTime p, isPlayingRef = autoPlay p, lastTimestampRef = None,
          playbackSpeedRef = playbackSpeed p, mouseRef = (0, 0), mouseNormalizedRef = (0, 0),
          sizeRef = \<lparr>width = 1, height = 1\<rparr>,
          currentProps = p, pixelRatioMemo = (pixelRatio p, actualPixelRatio),
          effectDeps = depsOf p actualPixelRatio, effectCleanup = None,
          env = e, containerChildren = [], rafQueue = [], nextRafId = 0,
          mouseListeners = 0, resizeListeners = 0, methodValues = Map.empty,
          renderersCreated = 0, renderersDisposed = [], renderCalls = 0,
          onFrameCalls = [], onResizeCalls = [], onErrorCalls = []\<rparr>)"

definition mount :: "props \<Rightarrow> dom_env \<Rightarrow> shader_canvas option" where
  "mount p e = setupEffect (initialState p e)"

text \<open>
  A later render with new props. \<^verbatim>\<open>useMemo\<close> recomputes the pixel ratio only when the
  \<^verbatim>\<open>pixelRatio\<close> prop changed; the effect runs again, after the cleanup of its last
  run, exactly when its dependency list changed.
\<close>

definition rerender :: "props \<Rightarrow> shader_canvas \<Rightarrow> shader_canvas option" where
  "rerender p s =
     (let memo = (if fst (pixelRatioMemo s) = pixelRatio p then pixelRatioMemo s
                  else (pixelRatio p, resolvePixelRatio (pixelRatio p) (env s)));
          d = depsOf p (snd memo);
          s1 = s\<lparr>currentProps := p, pixelRatioMemo := memo\<rparr>
      in if sameDeps (effectDeps s) d then Some s1
         else setupEffect
                ((case effectCleanup s1 of None \<Rightarrow> s1 | Some em \<Rightarrow> cleanup em s1)
                   \<lparr>effectDeps := d\<rparr>))"

text \<open>
  The window is resized: the browser reports new measurements and calls the
  \<^verbatim>\<open>handleResize\<close> the last setup registered, which is \<^verbatim>\<open>updateSize\<close>.
\<close>

definition resizeWindow :: "dom_env \<Rightarrow> shader_canvas \<Rightarrow> shader_canvas option" where
  "resizeWindow e s =
     (let s1 = s\<lparr>env := e\<rparr>
      in if resizeListeners s1 = 0 then Some s1 else updateSize s1)"

subsection \<open>The imperative controls\<close>

definition animatePlay :: "real \<Rightarrow> shader_canvas \<Rightarrow> shader_canvas" where
  \<comment> \<open>\<^verbatim>\<open>animate\<close> as defined inside \<^verbatim>\<open>play\<close>; it reads the refs at every frame.\<close>
  "animatePlay timestamp s =
     (if \<not> isPlayingRef s then s
      else
        (case (materialRef s, rendererRef s, sceneRef s, cameraRef s) of
           (Some m, Some r, Some _, Some _) \<Rightarrow>
             (let (deltaTime, s1) = advanceClock timestamp s;
                  s2 = s1\<lparr>materialRef := Some (writeTime (timeRef s1) m),
                          onFrameCalls := onFrameCalls s1 @ [(timeRef s1, deltaTime)]\<rparr>;
                  s3 = s2\<lparr>rendererRef := Some (r\<lparr>drawingBuffer := materialRef s2\<rparr>),
                          renderCalls := renderCalls s2 + 1\<rparr>;
                  (i, s4) = requestAnimationFrame PlayAnimate s3
              in s4\<lparr>rafIdRef := Some i\<rparr>)
         | _ \<Rightarrow> s))"

definition play :: "shader_canvas \<Rightarrow> shader_canvas" where
  "play s =
     (if isPlayingRef s then s
      else
        (let s1 = s\<lparr>isPlayingRef := True, lastTimestampRef := None\<rparr>;
             (i, s2) = requestAnimationFrame PlayAnimate s1
         in s2\<lparr>rafIdRef := Some i\<rparr>))"

definition pause :: "shader_canvas \<Rightarrow> shader_canvas" where
  "pause s =
     (let s1 = s\<lparr>isPlayingRef := False\<rparr>
      in case rafIdRef s1 of
           None \<Rightarrow> s1
         | Some i \<Rightarrow> (cancelAnimationFrame i s1)\<lparr>rafIdRef := None\<rparr>)"

definition reset :: "shader_canvas \<Rightarrow> shader_canvas" where
  "reset s =
     (let t0 = initialTime (currentProps s);
          s1 = s\<lparr>timeRef := t0, lastTimestampRef := None\<rparr>
      in case materialRef s1 of
           None \<Rightarrow> s1
         | Some m \<Rightarrow> s1\<lparr>materialRef := Some (writeTime t0 m)\<rparr>)"

definition setTime :: "real \<Rightarrow> shader_canvas \<Rightarrow> shader_canvas" where
  "setTime t s =
     (let s1 = s\<lparr>timeRef := t\<rparr>
      in case materialRef s1 of
           None \<Rightarrow> s1
         | Some m \<Rightarrow> s1\<lparr>materialRef := Some (writeTime t m)\<rparr>)"

definition setPlaybackSpeed :: "real \<Rightarrow> shader_canvas \<Rightarrow> shader_canvas" where
  "setPlaybackSpeed speed s = s\<lparr>playbackSpeedRef := speed\<rparr>"

text \<open>
  \<^verbatim>\<open>updateUniform\<close> and \<^verbatim>\<open>getUniform\<close> (the pair in useShaderMaterial.ts is the same
  code on that hook's own material ref). The guard is the truthiness of
  \<^verbatim>\<open>uniforms[name]\<close>, so it also lets an inherited method through; the assignment
  then lands on that method. A write through \<^verbatim>\<open>__proto__\<close> would change
  \<^verbatim>\<open>Object.prototype\<close> itself and with it every later property read; the model stops
  there with \<open>None\<close>.
\<close>

definition updateUniform :: "string \<Rightarrow> UniformValue \<Rightarrow> shader_canvas \<Rightarrow> shader_canvas option" where
  "updateUniform name v s =
     (case materialRef s of
        None \<Rightarrow> Some s
      | Some m \<Rightarrow>
          (case readSlot (uniforms m) name of
             None \<Rightarrow> Some s
           | Some (OwnCell _) \<Rightarrow>
               Some (s\<lparr>materialRef := Some (m\<lparr>uniforms := (uniforms m)(name \<mapsto> v)\<rparr>)\<rparr>)
           | Some InheritedMethod \<Rightarrow>
               Some (s\<lparr>methodValues := (methodValues s)(name \<mapsto> v)\<rparr>)
           | Some ObjectPrototype \<Rightarrow> None))"

definition getUniform :: "string \<Rightarrow> shader_canvas \<Rightarrow> UniformValue option" where
  "getUniform name s =
     (case materialRef s of
        None \<Rightarrow> None
      | Some m \<Rightarrow>
          (case readSlot (uniforms m) name of
             None \<Rightarrow> None
           | Some (OwnCell v) \<Rightarrow> Some v
           | Some InheritedMethod \<Rightarrow> methodValues s name
           | Some ObjectPrototype \<Rightarrow> None))"

text \<open>
  \<^verbatim>\<open>captureFrame\<close>. The PNG encoder of the canvas is the browser's; it is a parameter,
  applied to what the drawing buffer holds.
\<close>

definition captureFrame :: "(material option \<Rightarrow> string) \<Rightarrow> shader_canvas \<Rightarrow> string" where
  "captureFrame toDataURL s =
     (case rendererRef s of None \<Rightarrow> [] | Some r \<Rightarrow> toDataURL (drawingBuffer r))"

subsection \<open>One display frame, and sequences of calls\<close>

definition runCallback :: "real \<Rightarrow> callback \<Rightarrow> shader_canvas \<Rightarrow> shader_canvas option" where
  "runCallback timestamp cb s =
     (case cb of
        EffectAnimate \<Rightarrow> animateEffect timestamp s
      | PlayAnimate \<Rightarrow> Some (animatePlay timestamp s))"

fun runCallbacks :: "real \<Rightarrow> callback list \<Rightarrow> shader_canvas \<Rightarrow> shader_canvas option" where
  "runCallbacks timestamp [] s = Some s"
| "runCallbacks timestamp (cb # cbs) s =
     (case runCallback timestamp cb s of
        None \<Rightarrow> None
      | Some s' \<Rightarrow> runCallbacks timestamp cbs s')"

definition runFrame :: "real \<Rightarrow> shader_canvas \<Rightarrow> shader_canvas option" where
  \<comment> \<open>The browser takes the queued callbacks and runs each with the frame's timestamp.\<close>
  "runFrame timestamp s =
     runCallbacks timestamp (map snd (rafQueue s)) (s\<lparr>rafQueue := []\<rparr>)"

fun runFrames :: "real list \<Rightarrow> shader_canvas \<Rightarrow> shader_canvas list option" where
  \<comment> \<open>The states after each of a sequence of frames.\<close>
  "runFrames [] s = Some []"
| "runFrames (t # ts) s =
     (case runFrame t s of
        None \<Rightarrow> None
      | Some s' \<Rightarrow> map_option (\<lambda>rest. s' # rest) (runFrames ts s'))"

datatype call =
    Play | Pause | Reset | SetTime real | SetPlaybackSpeed real
  | UpdateUniform string UniformValue
  | Frame real

definition step :: "call \<Rightarrow> shader_canvas \<Rightarrow> shader_canvas option" where
  "step c s =
     (case c of
        Play \<Rightarrow> Some (play s)
      | Pause \<Rightarrow> Some (pause s)
      | Reset \<Rightarrow> Some (reset s)
      | SetTime t \<Rightarrow> Some (setTime t s)
      | SetPlaybackSpeed v \<Rightarrow> Some (setPlaybackSpeed v s)
      | UpdateUniform name v \<Rightarrow> updateUniform name v s
      | Frame timestamp \<Rightarrow> runFrame timestamp s)"

fun exec :: "call list \<Rightarrow> shader_canvas \<Rightarrow> shader_canvas option" where
  "exec [] s = Some s"
| "exec (c # cs) s = (case step c s of None \<Rightarrow> None | Some s' \<Rightarrow> exec cs s')"


section \<open>useAnimationLoop.ts\<close>

text \<open>
  The hook's own refs and React state, whether each of the three refs it is given holds
  an object, its pending frame requests, and the calls it makes.
\<close>

record animation_loop =
  loopRenderer :: bool
  loopScene :: bool
  loopCamera :: bool
  loopInitialTime :: real
  loopRafIdRef :: "nat option"
  loopPlaybackSpeedRef :: real
  loopTimeRef :: real
  loopLastTimestampRef :: "real option"
  loopIsPlayingRef :: bool
  loopIsPlaying :: bool
  loopCurrentTime :: real
  loopPending :: "nat list"
  loopNextRafId :: nat
  loopRenderCalls :: nat
  loopOnFrameCalls :: "(real \<times> real) list"

definition loopRender :: "animation_loop \<Rightarrow> animation_loop" where
  "loopRender l =
     (if loopRenderer l \<and> loopScene l \<and> loopCamera l
      then l\<lparr>loopRenderCalls := loopRenderCalls l + 1\<rparr>
      else l)"

definition loopRequestFrame :: "animation_loop \<Rightarrow> animation_loop" where
  \<comment> \<open>\<^verbatim>\<open>rafIdRef.current = requestAnimationFrame(animate)\<close>\<close>
  "loopRequestFrame l =
     l\<lparr>loopPending := loopPending l @ [loopNextRafId l],
       loopRafIdRef := Some (loopNextRafId l),
       loopNextRafId := loopNextRafId l + 1\<rparr>"

definition loopAnimate :: "real \<Rightarrow> animation_loop \<Rightarrow> animation_loop" where
  "loopAnimate timestamp l =
     (if \<not> loopIsPlayingRef l then l
      else
        (let lastTs = (case loopLastTimestampRef l of None \<Rightarrow> timestamp | Some t \<Rightarrow> t);
             deltaMs = timestamp - lastTs;
             deltaTime = (deltaMs / 1000) * loopPlaybackSpeedRef l;
             t' = loopTimeRef l + deltaTime;
             l1 = l\<lparr>loopLastTimestampRef := Some timestamp, loopTimeRef := t',
                    loopCurrentTime := t',
                    loopOnFrameCalls := loopOnFrameCalls l @ [(t', deltaTime)]\<rparr>
         in loopRequestFrame (loopRender l1)))"

definition loopPlay :: "animation_loop \<Rightarrow> animation_loop" where
  "loopPlay l =
     (if loopIsPlayingRef l then l
      else loopRequestFrame
             (l\<lparr>loopIsPlayingRef := True, loopIsPlaying := True,
                loopLastTimestampRef := None\<rparr>))"

definition loopPause :: "animation_loop \<Rightarrow> animation_loop" where
  "loopPause l =
     (let l1 = l\<lparr>loopIsPlayingRef := False, loopIsPlaying := False\<rparr>
      in case loopRafIdRef l1 of
           None \<Rightarrow> l1
         | Some i \<Rightarrow> l1\<lparr>loopPending := removeAll i (loopPending l1), loopRafIdRef := None\<rparr>)"

definition loopReset :: "animation_loop \<Rightarrow> animation_loop" where
  "loopReset l =
     loopRender (l\<lparr>loopTimeRef := loopInitialTime l, loopCurrentTime := loopInitialTime l,
                   loopLastTimestampRef := None\<rparr>)"

definition loopSetTime :: "real \<Rightarrow> animation_loop \<Rightarrow> animation_loop" where
  "loopSetTime t l = loopRender (l\<lparr>loopTimeRef := t, loopCurrentTime := t\<rparr>)"

definition loopSetPlaybackSpeed :: "real \<Rightarrow> animation_loop \<Rightarrow> animation_loop" where
  "loopSetPlaybackSpeed speed l = l\<lparr>loopPlaybackSpeedRef := speed\<rparr>"


section \<open>Concrete instances used below\<close>

definition exampleEnv :: "real \<Rightarrow> real \<Rightarrow> dom_env" where
  \<comment> \<open>A container of the given client size in an 800 by 600 window on a 1x display.\<close>
  "exampleEnv cw ch =
     \<lparr>clientWidth = cw, clientHeight = ch, innerWidth = 800, innerHeight = 600,
      devicePixelRatio = 1\<rparr>"

definition exampleProps :: props where
  \<comment> \<open>All defaults, with one fixed \<^verbatim>\<open>{ mode: 'fill' }\<close> object passed as \<^verbatim>\<open>size\<close>.\<close>
  "exampleProps =
     (defaultProps ''void main() { gl_FragColor = vec4(0.0, 0.5, 1.0, 1.0); }'')
       \<lparr>size := Some (1, Fill)\<rparr>"

definition stoppedProps :: props where
  "stoppedProps = exampleProps\<lparr>autoPlay := False\<rparr>"

definition exampleLoop :: animation_loop where
  \<comment> \<open>The hook on a ready surface, not playing.\<close>
  "exampleLoop =
     \<lparr>loopRenderer = True, loopScene = True, loopCamera = True, loopInitialTime = 0,
      loopRafIdRef = None, loopPlaybackSpeedRef = 1, loopTimeRef = 0,
      loopLastTimestampRef = None, loopIsPlayingRef = False, loopIsPlaying = False,
      loopCurrentTime = 0, loopPending = [], loopNextRafId = 0, loopRenderCalls = 1,
      loopOnFrameCalls = []\<rparr>"


definition mounted :: "props \<Rightarrow> dom_env \<Rightarrow> shader_canvas" where
  \<comment> \<open>The instance after its first render and setup effect.\<close>
  "mounted p e = (case mount p e of Some s \<Rightarrow> s | None \<Rightarrow> initialState p e)"

definition examplePng :: "material option \<Rightarrow> string" where
  \<comment> \<open>A stand-in for the browser's encoder: it names what the buffer shows.\<close>
  "examplePng b = (case b of None \<Rightarrow> ''data:blank'' | Some m \<Rightarrow> ''data:'' @ fragmentShaderSrc m)"

definition after :: "call list \<Rightarrow> props \<Rightarrow> dom_env \<Rightarrow> shader_canvas" where
  \<comment> \<open>The instance after mounting and a sequence of calls and frames.\<close>
  "after cs p e = (case exec cs (mounted p e) of Some s \<Rightarrow> s | None \<Rightarrow> mounted p e)"

definition malformedProps :: props where
  "malformedProps = (defaultProps ''this is not GLSL'')\<lparr>size := Some (1, Fill)\<rparr>"

section \<open>Notions used in the proofs\<close>

text \<open>What the canvas shows: a uniform of, and the fragment shader of, the frame last drawn.\<close>

definition drawnUniform :: "string \<Rightarrow> shader_canvas \<Rightarrow> UniformValue option" where
  "drawnUniform name s =
     (case rendererRef s of
        None \<Rightarrow> None
      | Some r \<Rightarrow> (case drawingBuffer r of None \<Rightarrow> None | Some m \<Rightarrow> uniforms m name))"

definition drawnFragmentShader :: "shader_canvas \<Rightarrow> string option" where
  "drawnFragmentShader s =
     (case rendererRef s of
        None \<Rightarrow> None
      | Some r \<Rightarrow> map_option fragmentShaderSrc (drawingBuffer r))"

text \<open>The \<^verbatim>\<open>deltaTime\<close> a tick at timestamp \<open>t\<close> computes in state \<open>s\<close>.\<close>

definition tickDelta :: "real \<Rightarrow> shader_canvas \<Rightarrow> real" where
  "tickDelta t s =
     (t - (case lastTimestampRef s of None \<Rightarrow> t | Some l \<Rightarrow> l)) / 1000 * playbackSpeedRef s"

text \<open>
  What one display frame at timestamp \<open>t\<close> can do to the clock: nothing, or one
  advance by the tick's delta (further callbacks of the same frame then add 0).
\<close>

definition clockStep :: "real \<Rightarrow> shader_canvas \<Rightarrow> shader_canvas \<Rightarrow> bool" where
  "clockStep t s s' \<longleftrightarrow>
     playbackSpeedRef s' = playbackSpeedRef s \<and>
     (timeRef s' = timeRef s \<and> lastTimestampRef s' = lastTimestampRef s
      \<or> lastTimestampRef s' = Some t \<and> timeRef s' = timeRef s + tickDelta t s)"

text \<open>The hook's states after each of a sequence of ticks.\<close>

fun loopTicks :: "real list \<Rightarrow> animation_loop \<Rightarrow> animation_loop list" where
  "loopTicks [] l = []"
| "loopTicks (t # ts) l = loopAnimate t l # loopTicks ts (loopAnimate t l)"

text \<open>
  Two invariants of a mounted instance under the imperative calls: at most one frame
  request is pending, it is the one \<open>rafIdRef\<close> names, and none is pending while
  stopped; and the refs of the surface are set.
\<close>

definition schedOk :: "shader_canvas \<Rightarrow> bool" where
  "schedOk s =
     (case rafQueue s of
        [] \<Rightarrow> True
      | [(i, cb)] \<Rightarrow> isPlayingRef s \<and> rafIdRef s = Some i
      | _ \<Rightarrow> False)"

definition surfaceActive :: "shader_canvas \<Rightarrow> bool" where
  "surfaceActive s \<longleftrightarrow>
     materialRef s \<noteq> None \<and> rendererRef s \<noteq> None \<and> sceneRef s \<noteq> None \<and>
     cameraRef s \<noteq> None"

lemmas mount_unfold =
  mounted_def mount_def initialState_def setupEffect_def updateSize_def buildUniforms_def
  renderScene_def requestAnimationFrame_def writeVec2_def sizeModeOf_def exampleProps_def
  stoppedProps_def defaultProps_def exampleEnv_def resolvePixelRatio_def depsOf_def
  vertexShaderOf_def orElse_def setSize_def canvasPixels_def Let_def

lemmas call_unfold =
  after_def step_def runFrame_def runCallback_def animateEffect_def animatePlay_def
  advanceClock_def writeTime_def play_def pause_def reset_def setTime_def
  setPlaybackSpeed_def cancelAnimationFrame_def updateUniform_def getUniform_def
  readSlot_def objectPrototypeMethods_def drawnUniform_def drawnFragmentShader_def

lemma setSize_fields [simp]:
  "rendererId (setSize w h r) = rendererId r"
  "rendererSize (setSize w h r) = \<lparr>width = w, height = h\<rparr>"
  "rendererPixelRatio (setSize w h r) = rendererPixelRatio r"
  "antialiasFlag (setSize w h r) = antialiasFlag r"
  "alphaFlag (setSize w h r) = alphaFlag r"
  by (simp_all add: setSize_def Let_def)

section \<open>Size policy\<close>

text \<open>
  C7, as stated: in aspect size mode the computation starts from the container's
  measured width and height, clamps to \<open>maxWidth\<close> and then to \<open>maxHeight\<close>, and gives
  400 by 200 for ratio 2, \<open>maxWidth\<close> 400 and a container of 1000 by 200. Three inputs
  where the code does otherwise (the window is 800 by 600):
  \<^item> the hook, ratio 2, container 0 by 100: the stated computation gives 0 by 0, the
    code falls back to the window's width and gives 200 by 100;
  \<^item> the hook, ratio 2, \<open>maxWidth\<close> 0, container 1000 by 200: clamping to 0 gives 0 by 0,
    the code skips a limit of 0 and gives 400 by 200;
  \<^item> the component, ratio 2, \<open>maxWidth\<close> 400, container 1000 by 200: its \<open>updateSize\<close>
    gives the renderer 1000 by 200.
\<close>

theorem aspect_zero_container_counterexample:
  "calculateSize (Aspect 2 None None) (exampleEnv 0 100) = Some \<lparr>width = 200, height = 100\<rparr>
   \<and> aspectAsSpecified 2 None None 0 100 = (0, Finite 0)
   \<and> calculateSize (Aspect 2 (Some 0) None) (exampleEnv 1000 200) =
       Some \<lparr>width = 400, height = 200\<rparr>
   \<and> aspectAsSpecified 2 (Some 0) None 1000 200 = (0, Finite 0)
   \<and> mount (stoppedProps\<lparr>size := Some (2, Aspect 2 (Some 400) None)\<rparr>) (exampleEnv 1000 200)
       \<noteq> None
   \<and> map_option rendererSize
        (rendererRef
           (mounted (stoppedProps\<lparr>size := Some (2, Aspect 2 (Some 400) None)\<rparr>)
              (exampleEnv 1000 200))) = Some \<lparr>width = 1000, height = 200\<rparr>
   \<and> aspectAsSpecified 2 (Some 400) None 1000 200 = (400, Finite 200)"
  by (simp add: calculateSize_def aspectBranch_def aspectAsSpecified_def finiteDims_def
        jsDivide_def jsGreater_def given_def mount_unfold)

text \<open>
  C7, amended: \<open>calculateSize\<close> of the resize hook computes, in aspect mode, the stated
  computation applied to the container's width and height with a measured 0 replaced
  by the window's inner width or height, and with a \<open>maxWidth\<close> or \<open>maxHeight\<close> of 0
  treated as absent; for ratio 2, \<open>maxWidth\<close> 400 and a container of 1000 by 200 its
  result is 400 by 200. The component's own \<open>updateSize\<close> does none of this in aspect
  mode: it gives the renderer the container's client width and height, with 300 and
  150 for a measured 0.
\<close>

theorem calculateSize_aspect:
  "aspectBranch aspectRatio maxWidth maxHeight e =
     aspectAsSpecified aspectRatio (effective maxWidth) (effective maxHeight)
       (orElse (clientWidth e) (innerWidth e)) (orElse (clientHeight e) (innerHeight e))
   \<and> calculateSize (Aspect aspectRatio maxWidth maxHeight) e =
       finiteDims
         (aspectAsSpecified aspectRatio (effective maxWidth) (effective maxHeight)
            (orElse (clientWidth e) (innerWidth e)) (orElse (clientHeight e) (innerHeight e)))
   \<and> calculateSize (Aspect 2 (Some 400) None)
         (e\<lparr>clientWidth := 1000, clientHeight := 200\<rparr>) = Some \<lparr>width = 400, height = 200\<rparr>
   \<and> (sizeModeOf (currentProps s) = Aspect aspectRatio maxWidth maxHeight \<longrightarrow>
        updateSize s = Some s' \<longrightarrow>
          map_option rendererSize (rendererRef s') =
            Some \<lparr>width = orElse (clientWidth (env s)) 300,
                  height = orElse (clientHeight (env s)) 150\<rparr>)"
proof -
  have a: "aspectBranch aspectRatio maxWidth maxHeight e =
     aspectAsSpecified aspectRatio (effective maxWidth) (effective maxHeight)
       (orElse (clientWidth e) (innerWidth e)) (orElse (clientHeight e) (innerHeight e))"
    by (cases maxWidth; cases maxHeight)
       (simp_all add: aspectBranch_def aspectAsSpecified_def effective_def given_def Let_def
          split: prod.splits)
  have b: "calculateSize (Aspect 2 (Some 400) None)
         (e\<lparr>clientWidth := 1000, clientHeight := 200\<rparr>) = Some \<lparr>width = 400, height = 200\<rparr>"
    by (simp add: calculateSize_def aspectBranch_def finiteDims_def jsDivide_def jsGreater_def
          orElse_def given_def)
  have c: "sizeModeOf (currentProps s) = Aspect aspectRatio maxWidth maxHeight \<longrightarrow>
        updateSize s = Some s' \<longrightarrow>
          map_option rendererSize (rendererRef s') =
            Some \<lparr>width = orElse (clientWidth (env s)) 300,
                  height = orElse (clientHeight (env s)) 150\<rparr>"
    by (auto simp: updateSize_def setSize_def Let_def split: option.splits prod.splits)
  from a b c show ?thesis by (simp add: calculateSize_def)
qed

theorem calculateSize_aspect_witness:
  "calculateSize (Aspect 2 (Some 400) (Some 0)) (exampleEnv 0 100) =
     Some \<lparr>width = 200, height = 100\<rparr>
   \<and> calculateSize (Aspect 0 None None) (exampleEnv 1000 200) = Some \<lparr>width = 0, height = 200\<rparr>
   \<and> aspectBranch 0 None None ((exampleEnv 0 200)\<lparr>innerWidth := 0\<rparr>) = (0, NaN)
   \<and> sizeModeOf
        (currentProps
           (mounted (stoppedProps\<lparr>size := Some (2, Aspect 2 (Some 400) None)\<rparr>)
              (exampleEnv 0 200))) = Aspect 2 (Some 400) None
   \<and> updateSize
        (mounted (stoppedProps\<lparr>size := Some (2, Aspect 2 (Some 400) None)\<rparr>)
           (exampleEnv 0 200)) \<noteq> None
   \<and> map_option rendererSize
        (rendererRef
           (the (updateSize
                   (mounted (stoppedProps\<lparr>size := Some (2, Aspect 2 (Some 400) None)\<rparr>)
                      (exampleEnv 0 200))))) = Some \<lparr>width = 300, height = 200\<rparr>"
proof -
  let ?s = "mounted (stoppedProps\<lparr>size := Some (2, Aspect 2 (Some 400) None)\<rparr>)
              (exampleEnv 0 200)"
  have a: "calculateSize (Aspect 2 (Some 400) (Some 0)) (exampleEnv 0 100) =
             Some \<lparr>width = 200, height = 100\<rparr>"
    using calculateSize_aspect [of 2 "Some 400" "Some 0" "exampleEnv 0 100"]
    by (simp add: effective_def given_def orElse_def exampleEnv_def aspectAsSpecified_def
          finiteDims_def jsDivide_def jsGreater_def)
  have b: "calculateSize (Aspect 0 None None) (exampleEnv 1000 200) =
             Some \<lparr>width = 0, height = 200\<rparr>"
    using calculateSize_aspect [of 0 None None "exampleEnv 1000 200"]
    by (simp add: effective_def given_def orElse_def exampleEnv_def aspectAsSpecified_def
          finiteDims_def jsDivide_def jsGreater_def)
  have c: "aspectBranch 0 None None ((exampleEnv 0 200)\<lparr>innerWidth := 0\<rparr>) = (0, NaN)"
    using calculateSize_aspect [of 0 None None "(exampleEnv 0 200)\<lparr>innerWidth := 0\<rparr>"]
    by (simp add: effective_def given_def orElse_def exampleEnv_def aspectAsSpecified_def
          jsDivide_def jsGreater_def)
  have d: "sizeModeOf (currentProps ?s) = Aspect 2 (Some 400) None"
    by (simp add: mount_unfold)
  have e0: "updateSize ?s \<noteq> None"
    by (simp add: mount_unfold)
  then have e: "updateSize ?s = Some (the (updateSize ?s))"
    by simp
  have f: "clientWidth (env ?s) = 0" "clientHeight (env ?s) = 200"
    by (simp_all add: mount_unfold)
  have g: "map_option rendererSize (rendererRef (the (updateSize ?s))) =
             Some \<lparr>width = 300, height = 200\<rparr>"
    using calculateSize_aspect [of 2 "Some 400" None _ ?s "the (updateSize ?s)"] d e f
    by (simp add: orElse_def)
  from a b c d e0 g show ?thesis by blast
qed

text \<open>
  C10: in fill mode each axis falls back on its own. The logical width is the
  container's measured width, or 300 when that is 0; the logical height is the measured
  height, or 150 when that is 0. This holds for \<open>calculateSize\<close> of the resize hook and
  for the size \<open>updateSize\<close> of the component gives the renderer and reports to
  \<^verbatim>\<open>onResize\<close>.
\<close>

theorem fill_fallback_per_axis:
  "calculateSize Fill e =
     Some \<lparr>width = (if clientWidth e = 0 then 300 else clientWidth e),
           height = (if clientHeight e = 0 then 150 else clientHeight e)\<rparr>
   \<and> (sizeModeOf (currentProps s) = Fill \<longrightarrow> updateSize s = Some s' \<longrightarrow>
        map_option rendererSize (rendererRef s') =
          Some \<lparr>width = (if clientWidth (env s) = 0 then 300 else clientWidth (env s)),
                height = (if clientHeight (env s) = 0 then 150 else clientHeight (env s))\<rparr>
        \<and> onResizeCalls s' =
            onResizeCalls s @
              [(if clientWidth (env s) = 0 then 300 else clientWidth (env s),
                if clientHeight (env s) = 0 then 150 else clientHeight (env s))])"
  by (auto simp: calculateSize_def updateSize_def setSize_def orElse_def Let_def
        split: option.splits prod.splits)


theorem fill_fallback_per_axis_witness:
  "calculateSize Fill (exampleEnv 0 400) = Some \<lparr>width = 300, height = 400\<rparr>
   \<and> calculateSize Fill (exampleEnv 0 0) = Some \<lparr>width = 300, height = 150\<rparr>
   \<and> sizeModeOf (currentProps (mounted stoppedProps (exampleEnv 0 400))) = Fill
   \<and> updateSize (mounted stoppedProps (exampleEnv 0 400)) \<noteq> None
   \<and> map_option rendererSize
        (rendererRef (the (updateSize (mounted stoppedProps (exampleEnv 0 400))))) =
       Some \<lparr>width = 300, height = 400\<rparr>"
proof -
  let ?s = "mounted stoppedProps (exampleEnv 0 400)"
  have a: "sizeModeOf (currentProps ?s) = Fill"
    by (simp add: mount_unfold)
  have b0: "updateSize ?s \<noteq> None"
    by (simp add: mount_unfold)
  then have b: "updateSize ?s = Some (the (updateSize ?s))"
    by simp
  have c: "clientWidth (env ?s) = 0" "clientHeight (env ?s) = 400"
    by (simp_all add: mount_unfold)
  have d: "calculateSize Fill (exampleEnv 0 400) = Some \<lparr>width = 300, height = 400\<rparr>"
          "calculateSize Fill (exampleEnv 0 0) = Some \<lparr>width = 300, height = 150\<rparr>"
    using fill_fallback_per_axis [of "exampleEnv 0 400"]
          fill_fallback_per_axis [of "exampleEnv 0 0"]
    by (simp_all add: exampleEnv_def)
  have e: "map_option rendererSize (rendererRef (the (updateSize ?s))) =
             Some \<lparr>width = 300, height = 400\<rparr>"
    using fill_fallback_per_axis [of "exampleEnv 0 400" ?s "the (updateSize ?s)"] a b c
    by simp
  from a b0 d e show ?thesis by blast
qed

section \<open>Capturing a frame\<close>

lemma setSize_buffer:
  "drawingBuffer (setSize w h r) =
     (if canvasPixels (setSize w h r) = canvasPixels r then drawingBuffer r else None)"
  by (auto simp: setSize_def canvasPixels_def Let_def)

lemma updateSize_capture:
  assumes "updateSize s = Some s'" and "rendererRef s = Some r" and "rendererRef s' = Some r'"
  shows "captureFrame toDataURL s' =
           (if canvasPixels r' = canvasPixels r then toDataURL (drawingBuffer r)
            else toDataURL None)"
  using assms setSize_buffer
  by (auto simp: updateSize_def captureFrame_def Let_def split: option.splits prod.splits)

lemma setupEffect_capture:
  assumes "setupEffect s = Some s'" and "containerRef s"
  shows "captureFrame toDataURL s' =
           (if autoPlay (currentProps s) then toDataURL None else toDataURL (materialRef s'))"
  using assms
  by (auto simp: setupEffect_def updateSize_def renderScene_def requestAnimationFrame_def
        captureFrame_def setSize_def Let_def split: option.splits prod.splits if_splits)

text \<open>
  C9, as stated: with an active surface \<open>captureFrame\<close> returns the most recently
  rendered frame. A stopped component in a 640 by 480 container has rendered one frame
  and \<open>captureFrame\<close> returns its encoding; after the window is resized so that the
  container is 800 by 600, no further render has been issued, the renderer has its new
  size, and \<open>captureFrame\<close> returns the encoding of a cleared canvas.
\<close>

theorem resize_clears_capture_counterexample:
  "mount stoppedProps (exampleEnv 640 480) \<noteq> None
   \<and> renderCalls (mounted stoppedProps (exampleEnv 640 480)) = 1
   \<and> captureFrame examplePng (mounted stoppedProps (exampleEnv 640 480)) =
       ''data:'' @ fragmentShader stoppedProps
   \<and> resizeWindow (exampleEnv 800 600) (mounted stoppedProps (exampleEnv 640 480)) \<noteq> None
   \<and> renderCalls
        (the (resizeWindow (exampleEnv 800 600) (mounted stoppedProps (exampleEnv 640 480)))) = 1
   \<and> map_option rendererSize
        (rendererRef
           (the (resizeWindow (exampleEnv 800 600)
                   (mounted stoppedProps (exampleEnv 640 480))))) =
       Some \<lparr>width = 800, height = 600\<rparr>
   \<and> captureFrame examplePng
        (the (resizeWindow (exampleEnv 800 600) (mounted stoppedProps (exampleEnv 640 480)))) =
       ''data:blank''"
  by (simp add: mount_unfold resizeWindow_def captureFrame_def examplePng_def)


text \<open>
  C9, amended: \<open>captureFrame\<close> never fails. Without a renderer (before setup, after
  cleanup) it returns the empty string. With one it returns the encoding of what the
  canvas holds: after a render call or a tick, the frame just drawn; after setup, the
  first frame when auto-play is off and a cleared canvas until the first tick when it
  is on; the same as before after \<open>setTime\<close>, \<open>reset\<close>, \<open>setPlaybackSpeed\<close>, \<open>play\<close>,
  \<open>pause\<close> and \<open>updateUniform\<close>; and after a window resize the same as before when
  the canvas keeps its size in device pixels, and a cleared canvas when its size
  changes, since a resize issues no render.
\<close>

theorem captureFrame_shows_canvas:
  "(rendererRef s = None \<longrightarrow> captureFrame toDataURL s = [])
   \<and> captureFrame toDataURL (cleanup em s) = []
   \<and> (renderScene s = Some s1 \<longrightarrow> captureFrame toDataURL s1 = toDataURL (materialRef s))
   \<and> (isPlayingRef s \<longrightarrow> animateEffect t s = Some s2 \<longrightarrow>
        captureFrame toDataURL s2 = toDataURL (materialRef s2))
   \<and> (isPlayingRef s \<longrightarrow> surfaceActive s \<longrightarrow>
        captureFrame toDataURL (animatePlay t s) = toDataURL (materialRef (animatePlay t s)))
   \<and> (containerRef s \<longrightarrow> setupEffect s = Some s3 \<longrightarrow>
        captureFrame toDataURL s3 =
          (if autoPlay (currentProps s) then toDataURL None else toDataURL (materialRef s3)))
   \<and> (rendererRef s = Some r \<longrightarrow> resizeWindow e s = Some s4 \<longrightarrow> rendererRef s4 = Some r4 \<longrightarrow>
        captureFrame toDataURL s4 =
          (if canvasPixels r4 = canvasPixels r then captureFrame toDataURL s
           else toDataURL None))
   \<and> captureFrame toDataURL (setTime u s) = captureFrame toDataURL s
   \<and> captureFrame toDataURL (reset s) = captureFrame toDataURL s
   \<and> captureFrame toDataURL (setPlaybackSpeed v s) = captureFrame toDataURL s
   \<and> captureFrame toDataURL (play s) = captureFrame toDataURL s
   \<and> captureFrame toDataURL (pause s) = captureFrame toDataURL s
   \<and> (updateUniform name x s = Some s5 \<longrightarrow>
        captureFrame toDataURL s5 = captureFrame toDataURL s)"
proof -
  have a: "rendererRef s = None \<longrightarrow> captureFrame toDataURL s = []"
    by (simp add: captureFrame_def)
  have b: "captureFrame toDataURL (cleanup em s) = []"
    by (simp add: captureFrame_def cleanup_def cancelAnimationFrame_def Let_def
          split: option.splits)
  have c: "renderScene s = Some s1 \<longrightarrow> captureFrame toDataURL s1 = toDataURL (materialRef s)"
    by (auto simp: captureFrame_def renderScene_def split: option.splits)
  have d: "isPlayingRef s \<longrightarrow> animateEffect t s = Some s2 \<longrightarrow>
        captureFrame toDataURL s2 = toDataURL (materialRef s2)"
    by (auto simp: animateEffect_def advanceClock_def renderScene_def requestAnimationFrame_def
          captureFrame_def Let_def split: option.splits prod.splits)
  have e: "isPlayingRef s \<longrightarrow> surfaceActive s \<longrightarrow>
        captureFrame toDataURL (animatePlay t s) = toDataURL (materialRef (animatePlay t s))"
    by (auto simp: animatePlay_def advanceClock_def requestAnimationFrame_def surfaceActive_def
          captureFrame_def Let_def split: option.splits prod.splits)
  have f: "containerRef s \<longrightarrow> setupEffect s = Some s3 \<longrightarrow>
        captureFrame toDataURL s3 =
          (if autoPlay (currentProps s) then toDataURL None else toDataURL (materialRef s3))"
    using setupEffect_capture [of s s3 toDataURL] by blast
  have g: "rendererRef s = Some r \<longrightarrow> resizeWindow e s = Some s4 \<longrightarrow> rendererRef s4 = Some r4 \<longrightarrow>
        captureFrame toDataURL s4 =
          (if canvasPixels r4 = canvasPixels r then captureFrame toDataURL s
           else toDataURL None)"
    using updateSize_capture [of "s\<lparr>env := e\<rparr>" s4 r r4 toDataURL]
    by (auto simp: resizeWindow_def captureFrame_def Let_def split: if_splits)
  have h: "captureFrame toDataURL (setTime u s) = captureFrame toDataURL s"
    "captureFrame toDataURL (reset s) = captureFrame toDataURL s"
    "captureFrame toDataURL (setPlaybackSpeed v s) = captureFrame toDataURL s"
    "captureFrame toDataURL (play s) = captureFrame toDataURL s"
    "captureFrame toDataURL (pause s) = captureFrame toDataURL s"
    by (auto simp: captureFrame_def setTime_def reset_def setPlaybackSpeed_def play_def
          pause_def requestAnimationFrame_def cancelAnimationFrame_def Let_def
          split: option.splits prod.splits)
  have i: "updateUniform name x s = Some s5 \<longrightarrow>
        captureFrame toDataURL s5 = captureFrame toDataURL s"
    by (auto simp: captureFrame_def updateUniform_def split: option.splits slot.splits)
  from a b c d e f g h i show ?thesis by blast
qed

theorem captureFrame_shows_canvas_witness:
  "rendererRef (initialState stoppedProps (exampleEnv 640 480)) = None
   \<and> captureFrame examplePng (initialState stoppedProps (exampleEnv 640 480)) = []
   \<and> rendererRef (mounted stoppedProps (exampleEnv 640 480)) \<noteq> None
   \<and> resizeWindow (exampleEnv 800 600) (mounted stoppedProps (exampleEnv 640 480)) \<noteq> None
   \<and> canvasPixels
         (the (rendererRef
                 (the (resizeWindow (exampleEnv 800 600)
                         (mounted stoppedProps (exampleEnv 640 480)))))) = (800, 600)
   \<and> canvasPixels (the (rendererRef (mounted stoppedProps (exampleEnv 640 480)))) = (640, 480)
   \<and> captureFrame examplePng
        (the (resizeWindow (exampleEnv 800 600) (mounted stoppedProps (exampleEnv 640 480)))) =
       ''data:blank''
   \<and> isPlayingRef (mounted exampleProps (exampleEnv 640 480))
   \<and> animateEffect 0 (mounted exampleProps (exampleEnv 640 480)) \<noteq> None
   \<and> captureFrame examplePng
        (the (animateEffect 0 (mounted exampleProps (exampleEnv 640 480)))) =
       ''data:'' @ fragmentShader exampleProps"
proof -
  let ?i = "initialState stoppedProps (exampleEnv 640 480)"
  let ?s = "mounted stoppedProps (exampleEnv 640 480)"
  let ?z = "the (resizeWindow (exampleEnv 800 600) ?s)"
  let ?p = "mounted exampleProps (exampleEnv 640 480)"
  let ?q = "the (animateEffect 0 ?p)"
  have a: "rendererRef ?i = None"
    by (simp add: initialState_def Let_def)
  have a': "captureFrame examplePng ?i = []"
    using captureFrame_shows_canvas [where s = ?i and toDataURL = examplePng] a by blast
  have b: "rendererRef ?s \<noteq> None"
    by (simp add: mount_unfold)
  then have b': "rendererRef ?s = Some (the (rendererRef ?s))"
    by simp
  have c: "resizeWindow (exampleEnv 800 600) ?s \<noteq> None"
    by (simp add: mount_unfold resizeWindow_def)
  then have c': "resizeWindow (exampleEnv 800 600) ?s = Some ?z"
    by simp
  have d: "rendererRef ?z \<noteq> None"
    by (simp add: mount_unfold resizeWindow_def)
  then have d': "rendererRef ?z = Some (the (rendererRef ?z))"
    by simp
  have e: "canvasPixels (the (rendererRef ?z)) = (800, 600)"
    "canvasPixels (the (rendererRef ?s)) = (640, 480)"
    by (simp_all add: mount_unfold resizeWindow_def)
  have f: "captureFrame examplePng ?z = ''data:blank''"
    using captureFrame_shows_canvas
            [where s = ?s and toDataURL = examplePng and r = "the (rendererRef ?s)"
               and e = "exampleEnv 800 600" and ?s4.0 = ?z and ?r4.0 = "the (rendererRef ?z)"]
          b' c' d' e
    by (simp add: examplePng_def)
  have g: "isPlayingRef ?p"
    by (simp add: mount_unfold)
  have h: "animateEffect 0 ?p \<noteq> None"
    by (simp add: mount_unfold call_unfold)
  then have h': "animateEffect 0 ?p = Some ?q"
    by simp
  have k: "map_option fragmentShaderSrc (materialRef ?q) = Some (fragmentShader exampleProps)"
    by (simp add: mount_unfold call_unfold)
  have "captureFrame examplePng ?q = examplePng (materialRef ?q)"
    using captureFrame_shows_canvas
            [where s = ?p and toDataURL = examplePng and t = 0 and ?s2.0 = ?q] g h'
    by blast
  with k have l: "captureFrame examplePng ?q = ''data:'' @ fragmentShader exampleProps"
    by (auto simp: examplePng_def)
  from a a' b c e f g h l show ?thesis by blast
qed

section \<open>Structural changes\<close>

lemma cleanup_fields:
  "rendererRef (cleanup em s) = None"
  "materialRef (cleanup em s) = None"
  "containerRef (cleanup em s) = containerRef s"
  "currentProps (cleanup em s) = currentProps s"
  "renderersCreated (cleanup em s) = renderersCreated s"
  "renderersDisposed (cleanup em s) =
     (case rendererRef s of
        None \<Rightarrow> renderersDisposed s
      | Some r \<Rightarrow> renderersDisposed s @ [rendererId r])"
  by (simp_all add: cleanup_def cancelAnimationFrame_def Let_def split: option.splits)

lemma setupEffect_fields:
  assumes "setupEffect s = Some s'" and "containerRef s"
  shows "renderersDisposed s' = renderersDisposed s"
    and "renderersCreated s' = renderersCreated s + 1"
    and "map_option rendererId (rendererRef s') = Some (renderersCreated s)"
    and "sceneRef s' = Some (renderersCreated s)"
    and "cameraRef s' = Some (renderersCreated s)"
    and "meshRef s' = Some (renderersCreated s)"
    and "map_option fragmentShaderSrc (materialRef s') = Some (fragmentShader (currentProps s))"
    and "onErrorCalls s' = onErrorCalls s"
  using assms
  by (auto simp: setupEffect_def updateSize_def renderScene_def requestAnimationFrame_def
        Let_def split: option.splits prod.splits if_splits)

lemma rerender_same_deps:
  "sameDeps (effectDeps s) (depsOf p (snd (pixelRatioMemo s))) \<Longrightarrow>
   fst (pixelRatioMemo s) = pixelRatio p \<Longrightarrow>
   rerender p s = Some (s\<lparr>currentProps := p\<rparr>)"
  by (simp add: rerender_def Let_def)

text \<open>
  C1, as stated: changing only the pointer flag does not rebuild the surface. On a
  mounted instance with default props, a re-render that only turns
  \<open>enableMouseUniform\<close> off disposes renderer 0 and installs a new renderer 1.
\<close>

theorem pointer_flag_rebuild_counterexample:
  "mount exampleProps (exampleEnv 640 480) \<noteq> None
   \<and> map_option rendererId (rendererRef (mounted exampleProps (exampleEnv 640 480))) = Some 0
   \<and> rerender (exampleProps\<lparr>enableMouseUniform := False\<rparr>)
        (mounted exampleProps (exampleEnv 640 480)) \<noteq> None
   \<and> renderersDisposed
        (the (rerender (exampleProps\<lparr>enableMouseUniform := False\<rparr>)
                (mounted exampleProps (exampleEnv 640 480)))) = [0]
   \<and> map_option rendererId
        (rendererRef
           (the (rerender (exampleProps\<lparr>enableMouseUniform := False\<rparr>)
                   (mounted exampleProps (exampleEnv 640 480))))) = Some 1"
  by (simp add: mount_unfold rerender_def sameDeps_def cleanup_def cancelAnimationFrame_def)

text \<open>
  C1, amended: a re-render that changes the pointer flag, like one that changes the
  fragment shader source, runs the cleanup of the setup effect and then the effect
  again: the current renderer is disposed and a new renderer, scene, camera, mesh and
  material (with the new props' fragment shader) are created.
\<close>

theorem flag_or_shader_change_rebuilds:
  assumes "effectCleanup s = Some em" and "rendererRef s = Some r" and "containerRef s"
    and "enableMouseUniform p \<noteq> depEnableMouseUniform (effectDeps s)
         \<or> fragmentShader p \<noteq> depFragmentShader (effectDeps s)"
    and "rerender p s = Some s'"
  shows "renderersDisposed s' = renderersDisposed s @ [rendererId r]
       \<and> renderersCreated s' = renderersCreated s + 1
       \<and> map_option rendererId (rendererRef s') = Some (renderersCreated s)
       \<and> sceneRef s' = Some (renderersCreated s)
       \<and> cameraRef s' = Some (renderersCreated s)
       \<and> meshRef s' = Some (renderersCreated s)
       \<and> map_option fragmentShaderSrc (materialRef s') = Some (fragmentShader p)"
proof -
  define memo where
    "memo = (if fst (pixelRatioMemo s) = pixelRatio p then pixelRatioMemo s
             else (pixelRatio p, resolvePixelRatio (pixelRatio p) (env s)))"
  define s1 where "s1 = s\<lparr>currentProps := p, pixelRatioMemo := memo\<rparr>"
  define s2 where "s2 = (cleanup em s1)\<lparr>effectDeps := depsOf p (snd memo)\<rparr>"
  have nd: "\<not> sameDeps (effectDeps s) (depsOf p (snd memo))"
    using assms(4) by (auto simp: sameDeps_def depsOf_def)
  have run: "setupEffect s2 = Some s'"
    using assms(5) nd assms(1)
    by (simp add: rerender_def Let_def memo_def s1_def s2_def)
  have c: "containerRef s2" "renderersCreated s2 = renderersCreated s"
    "renderersDisposed s2 = renderersDisposed s @ [rendererId r]" "currentProps s2 = p"
    using assms(2,3) by (simp_all add: s2_def s1_def cleanup_fields)
  from setupEffect_fields [OF run c(1)] c show ?thesis by simp
qed


theorem flag_or_shader_change_rebuilds_witness:
  "effectCleanup (mounted exampleProps (exampleEnv 640 480)) = Some True
   \<and> map_option rendererId (rendererRef (mounted exampleProps (exampleEnv 640 480))) = Some 0
   \<and> containerRef (mounted exampleProps (exampleEnv 640 480))
   \<and> depEnableMouseUniform (effectDeps (mounted exampleProps (exampleEnv 640 480))) = True
   \<and> rerender (exampleProps\<lparr>enableMouseUniform := False\<rparr>)
        (mounted exampleProps (exampleEnv 640 480)) \<noteq> None
   \<and> renderersDisposed
        (the (rerender (exampleProps\<lparr>enableMouseUniform := False\<rparr>)
                (mounted exampleProps (exampleEnv 640 480)))) = [0]
   \<and> rerender (exampleProps\<lparr>fragmentShader := ''void main() {}''\<rparr>)
        (mounted exampleProps (exampleEnv 640 480)) \<noteq> None
   \<and> renderersDisposed
        (the (rerender (exampleProps\<lparr>fragmentShader := ''void main() {}''\<rparr>)
                (mounted exampleProps (exampleEnv 640 480)))) = [0]"
proof -
  let ?s = "mounted exampleProps (exampleEnv 640 480)"
  let ?p = "exampleProps\<lparr>enableMouseUniform := False\<rparr>"
  let ?q = "exampleProps\<lparr>fragmentShader := ''void main() {}''\<rparr>"
  have a: "effectCleanup ?s = Some True" "containerRef ?s"
    "depEnableMouseUniform (effectDeps ?s) = True" "renderersDisposed ?s = []"
    "depFragmentShader (effectDeps ?s) = fragmentShader exampleProps"
    by (simp_all add: mount_unfold)
  have r: "rendererRef ?s \<noteq> None" "map_option rendererId (rendererRef ?s) = Some 0"
    by (simp_all add: mount_unfold)
  then have r': "rendererRef ?s = Some (the (rendererRef ?s))" "rendererId (the (rendererRef ?s)) = 0"
    by auto
  have p: "rerender ?p ?s \<noteq> None"
    by (simp add: mount_unfold rerender_def sameDeps_def cleanup_def cancelAnimationFrame_def)
  then have p': "rerender ?p ?s = Some (the (rerender ?p ?s))" by simp
  have q: "rerender ?q ?s \<noteq> None"
    by (simp add: mount_unfold rerender_def sameDeps_def cleanup_def cancelAnimationFrame_def)
  then have q': "rerender ?q ?s = Some (the (rerender ?q ?s))" by simp
  have hp: "enableMouseUniform ?p \<noteq> depEnableMouseUniform (effectDeps ?s)
            \<or> fragmentShader ?p \<noteq> depFragmentShader (effectDeps ?s)"
    using a(3) by (simp add: exampleProps_def)
  have hq: "enableMouseUniform ?q \<noteq> depEnableMouseUniform (effectDeps ?s)
            \<or> fragmentShader ?q \<noteq> depFragmentShader (effectDeps ?s)"
    using a(5) by (simp add: exampleProps_def defaultProps_def)
  have dp: "renderersDisposed (the (rerender ?p ?s)) = [0]"
    using flag_or_shader_change_rebuilds [OF a(1) r'(1) a(2) hp p'] a(4) r'(2) by simp
  have dq: "renderersDisposed (the (rerender ?q ?s)) = [0]"
    using flag_or_shader_change_rebuilds [OF a(1) r'(1) a(2) hq q'] a(4) r'(2) by simp
  from a r p q dp dq show ?thesis by blast
qed

section \<open>Shader errors\<close>

lemma mount_uses_given_shader:
  "mount p e = Some s \<Longrightarrow>
     map_option fragmentShaderSrc (materialRef s) = Some (fragmentShader p)
     \<and> onErrorCalls s = []"
  using setupEffect_fields(7,8) [of "initialState p e" s]
  by (simp add: mount_def initialState_def Let_def)

lemma animateEffect_onError: "animateEffect t s = Some s' \<Longrightarrow> onErrorCalls s' = onErrorCalls s"
  by (auto simp: animateEffect_def advanceClock_def renderScene_def requestAnimationFrame_def
        Let_def split: if_splits option.splits prod.splits)

lemma animatePlay_onError: "onErrorCalls (animatePlay t s) = onErrorCalls s"
  by (auto simp: animatePlay_def advanceClock_def requestAnimationFrame_def Let_def
        split: if_splits option.splits prod.splits)

lemma runCallbacks_onError:
  "runCallbacks t cbs s = Some s' \<Longrightarrow> onErrorCalls s' = onErrorCalls s"
proof (induction cbs arbitrary: s)
  case Nil
  then show ?case by simp
next
  case (Cons cb cbs)
  then obtain s1 where a: "runCallback t cb s = Some s1"
    and b: "runCallbacks t cbs s1 = Some s'"
    by (auto split: option.splits)
  from a have "onErrorCalls s1 = onErrorCalls s"
    by (cases cb) (auto simp: runCallback_def animateEffect_onError animatePlay_onError)
  with Cons.IH [OF b] show ?case by simp
qed

lemma step_onError: "step c s = Some s' \<Longrightarrow> onErrorCalls s' = onErrorCalls s"
proof (cases c)
  case (Frame t)
  assume "step c s = Some s'"
  with Frame runCallbacks_onError [of t "map snd (rafQueue s)" "s\<lparr>rafQueue := []\<rparr>" s']
  show ?thesis by (simp add: step_def runFrame_def)
qed (auto simp: step_def play_def pause_def reset_def setTime_def setPlaybackSpeed_def
       updateUniform_def requestAnimationFrame_def cancelAnimationFrame_def Let_def
       split: option.splits slot.splits prod.splits)

text \<open>
  C3: a malformed fragment shader is replaced by the fallback program and reported
  through \<^verbatim>\<open>onError\<close>. The code does neither: mounted with the source
  \<^verbatim>\<open>this is not GLSL\<close>, the material carries that source, not
  \<open>FALLBACK_FRAGMENT_SHADER\<close>; two frames later the drawing buffer was drawn with it;
  and \<^verbatim>\<open>onError\<close> was never called.
\<close>

theorem malformed_shader_kept_and_unreported:
  "mount malformedProps (exampleEnv 640 480) \<noteq> None
   \<and> exec [Frame 0, Frame 16] (mounted malformedProps (exampleEnv 640 480)) \<noteq> None
   \<and> map_option fragmentShaderSrc (materialRef (mounted malformedProps (exampleEnv 640 480))) =
     Some ''this is not GLSL''
   \<and> ''this is not GLSL'' \<noteq> FALLBACK_FRAGMENT_SHADER
   \<and> onErrorCalls (mounted malformedProps (exampleEnv 640 480)) = []
   \<and> drawnFragmentShader (after [Frame 0, Frame 16] malformedProps (exampleEnv 640 480)) =
       Some ''this is not GLSL''
   \<and> onErrorCalls (after [Frame 0, Frame 16] malformedProps (exampleEnv 640 480)) = []"
  by (simp add: mount_unfold call_unfold malformedProps_def FALLBACK_FRAGMENT_SHADER_def)

section \<open>setTime and reset\<close>

lemma setTime_clock:
  "timeRef (setTime t s) = t \<and> isPlayingRef (setTime t s) = isPlayingRef s
   \<and> lastTimestampRef (setTime t s) = lastTimestampRef s
   \<and> playbackSpeedRef (setTime t s) = playbackSpeedRef s
   \<and> rafQueue (setTime t s) = rafQueue s"
  by (simp add: setTime_def Let_def split: option.splits)

lemma setTime_writes_uniform:
  "materialRef s = Some m \<Longrightarrow> uniforms m ''u_time'' \<noteq> None \<Longrightarrow>
     getUniform ''u_time'' (setTime t s) = Some (Num t)"
  by (auto simp: setTime_def getUniform_def readSlot_def writeTime_def Let_def)

lemma setTime_never_renders:
  "renderCalls (setTime t s) = renderCalls s \<and> rendererRef (setTime t s) = rendererRef s"
  by (simp add: setTime_def Let_def split: option.splits)

lemma loopSetTime_renders:
  "loopRenderer l \<Longrightarrow> loopScene l \<Longrightarrow> loopCamera l \<Longrightarrow>
     loopRenderCalls (loopSetTime t l) = loopRenderCalls l + 1
     \<and> loopTimeRef (loopSetTime t l) = t
     \<and> loopIsPlayingRef (loopSetTime t l) = loopIsPlayingRef l"
  by (simp add: loopSetTime_def loopRender_def)

lemma reset_clock:
  "timeRef (reset s) = initialTime (currentProps s) \<and> lastTimestampRef (reset s) = None
   \<and> isPlayingRef (reset s) = isPlayingRef s"
  by (simp add: reset_def Let_def split: option.splits)

lemma reset_never_renders:
  "renderCalls (reset s) = renderCalls s \<and> rendererRef (reset s) = rendererRef s"
  by (simp add: reset_def Let_def split: option.splits)

lemma loopReset_renders:
  "loopRenderer l \<Longrightarrow> loopScene l \<Longrightarrow> loopCamera l \<Longrightarrow>
     loopRenderCalls (loopReset l) = loopRenderCalls l + 1
     \<and> loopTimeRef (loopReset l) = loopInitialTime l
     \<and> loopLastTimestampRef (loopReset l) = None"
  by (simp add: loopReset_def loopRender_def)

text \<open>
  C2: \<open>setTime t\<close> sets the clock to \<open>t\<close>, writes the time uniform, renders once and
  keeps the play state. On a mounted, stopped component \<open>setTime 5\<close> does set the clock
  and the uniform and keeps the play state, but it issues no render: the render count
  stays at 1 and the drawing buffer still shows the time 0. The hook's \<open>setTime\<close>
  does render.
\<close>

theorem setTime_issues_no_render:
  "mount stoppedProps (exampleEnv 640 480) \<noteq> None
   \<and> timeRef (setTime 5 (mounted stoppedProps (exampleEnv 640 480))) = 5
   \<and> getUniform ''u_time'' (setTime 5 (mounted stoppedProps (exampleEnv 640 480))) =
       Some (Num 5)
   \<and> isPlayingRef (setTime 5 (mounted stoppedProps (exampleEnv 640 480))) = False
   \<and> renderCalls (mounted stoppedProps (exampleEnv 640 480)) = 1
   \<and> renderCalls (setTime 5 (mounted stoppedProps (exampleEnv 640 480))) = 1
   \<and> drawnUniform ''u_time'' (setTime 5 (mounted stoppedProps (exampleEnv 640 480))) =
       Some (Num 0)
   \<and> loopRenderCalls (loopSetTime 5 exampleLoop) = loopRenderCalls exampleLoop + 1"
  by (simp add: mount_unfold call_unfold loopSetTime_def loopRender_def exampleLoop_def)

text \<open>
  C4: \<open>reset\<close> sets the clock to its initial value, clears the last-tick reference and
  renders once. On a component played for one second and then paused, \<open>reset\<close> does
  set the clock and the time uniform to 0 and clears the reference, but it issues no
  render: the render count stays at 2 and the drawing buffer still shows the time 1.
  The hook's \<open>reset\<close> does render.
\<close>

theorem reset_issues_no_render:
  "exec [Frame 0, Frame 1000, Pause] (mounted exampleProps (exampleEnv 640 480)) \<noteq> None
   \<and> timeRef (after [Frame 0, Frame 1000, Pause] exampleProps (exampleEnv 640 480)) = 1
   \<and> isPlayingRef (after [Frame 0, Frame 1000, Pause] exampleProps (exampleEnv 640 480)) = False
   \<and> renderCalls (after [Frame 0, Frame 1000, Pause] exampleProps (exampleEnv 640 480)) = 2
   \<and> timeRef (reset (after [Frame 0, Frame 1000, Pause] exampleProps (exampleEnv 640 480))) = 0
   \<and> lastTimestampRef
        (reset (after [Frame 0, Frame 1000, Pause] exampleProps (exampleEnv 640 480))) = None
   \<and> getUniform ''u_time''
        (reset (after [Frame 0, Frame 1000, Pause] exampleProps (exampleEnv 640 480))) =
       Some (Num 0)
   \<and> renderCalls
        (reset (after [Frame 0, Frame 1000, Pause] exampleProps (exampleEnv 640 480))) = 2
   \<and> drawnUniform ''u_time''
        (reset (after [Frame 0, Frame 1000, Pause] exampleProps (exampleEnv 640 480))) =
       Some (Num 1)
   \<and> loopRenderCalls (loopReset exampleLoop) = loopRenderCalls exampleLoop + 1"
  by (simp add: mount_unfold call_unfold loopReset_def loopRender_def exampleLoop_def)

section \<open>Writes to unknown uniform names\<close>

lemma updateUniform_unknown_name:
  "\<forall>m. materialRef s = Some m \<longrightarrow> uniforms m name = None \<Longrightarrow>
   name \<notin> set objectPrototypeMethods \<Longrightarrow> name \<noteq> ''__proto__'' \<Longrightarrow>
     updateUniform name v s = Some s \<and> getUniform name s = None"
  by (auto simp: updateUniform_def getUniform_def readSlot_def split: option.splits)

lemma updateUniform_keeps_registered:
  "updateUniform name v s = Some s' \<Longrightarrow> materialRef s = Some m \<Longrightarrow>
   uniforms m name = None \<Longrightarrow> materialRef s' = Some m"
  by (auto simp: updateUniform_def readSlot_def split: option.splits slot.splits if_splits)

text \<open>
  C8: a write to a name that is not in the registry is ignored and \<open>getUniform\<close> of
  that name stays absent. The registry of a mounted component has no entry
  \<^verbatim>\<open>constructor\<close> and \<open>getUniform\<close> of it is absent; after
  \<open>updateUniform ''constructor'' (Num 1)\<close> the registry is unchanged, but \<open>getUniform\<close>
  of that name returns 1.
\<close>

theorem inherited_name_write_is_stored:
  "mount exampleProps (exampleEnv 640 480) \<noteq> None
   \<and> uniforms (the (materialRef (mounted exampleProps (exampleEnv 640 480))))
        ''constructor'' = None
   \<and> getUniform ''constructor'' (mounted exampleProps (exampleEnv 640 480)) = None
   \<and> updateUniform ''constructor'' (Num 1) (mounted exampleProps (exampleEnv 640 480)) \<noteq> None
   \<and> materialRef
        (the (updateUniform ''constructor'' (Num 1)
                (mounted exampleProps (exampleEnv 640 480)))) =
       materialRef (mounted exampleProps (exampleEnv 640 480))
   \<and> getUniform ''constructor''
        (the (updateUniform ''constructor'' (Num 1)
                (mounted exampleProps (exampleEnv 640 480)))) = Some (Num 1)"
  by (simp add: mount_unfold call_unfold)


section \<open>The first tick after play\<close>

lemma schedOk_iff:
  "schedOk s \<longleftrightarrow>
     rafQueue s = [] \<or> (\<exists>i cb. rafQueue s = [(i, cb)] \<and> isPlayingRef s \<and> rafIdRef s = Some i)"
  by (auto simp: schedOk_def split: list.splits prod.splits)

lemma mount_invariant: "mount p e = Some s \<Longrightarrow> schedOk s \<and> surfaceActive s"
  by (auto simp: mount_def setupEffect_def initialState_def updateSize_def renderScene_def
        requestAnimationFrame_def schedOk_iff surfaceActive_def Let_def
        split: option.splits prod.splits if_splits)

lemma play_invariant: "schedOk s \<Longrightarrow> surfaceActive s \<Longrightarrow> schedOk (play s) \<and> surfaceActive (play s)"
  by (auto simp: play_def requestAnimationFrame_def schedOk_iff surfaceActive_def Let_def
        split: list.splits prod.splits if_splits)

lemma pause_invariant: "schedOk s \<Longrightarrow> surfaceActive s \<Longrightarrow> schedOk (pause s) \<and> surfaceActive (pause s)"
  by (auto simp: pause_def cancelAnimationFrame_def schedOk_iff surfaceActive_def Let_def
        split: list.splits prod.splits if_splits option.splits)

lemma reset_invariant: "schedOk s \<Longrightarrow> surfaceActive s \<Longrightarrow> schedOk (reset s) \<and> surfaceActive (reset s)"
  by (auto simp: reset_def schedOk_iff surfaceActive_def Let_def
        split: list.splits prod.splits if_splits option.splits)

lemma setTime_invariant: "schedOk s \<Longrightarrow> surfaceActive s \<Longrightarrow> schedOk (setTime t s) \<and> surfaceActive (setTime t s)"
  by (auto simp: setTime_def schedOk_iff surfaceActive_def Let_def
        split: list.splits prod.splits if_splits option.splits)

lemma setPlaybackSpeed_invariant:
  "schedOk s \<Longrightarrow> surfaceActive s \<Longrightarrow> schedOk (setPlaybackSpeed v s) \<and> surfaceActive (setPlaybackSpeed v s)"
  by (auto simp: setPlaybackSpeed_def schedOk_iff surfaceActive_def)

lemma updateUniform_invariant:
  "updateUniform n v s = Some s' \<Longrightarrow> schedOk s \<Longrightarrow> surfaceActive s \<Longrightarrow> schedOk s' \<and> surfaceActive s'"
  by (auto simp: updateUniform_def schedOk_iff surfaceActive_def
        split: option.splits slot.splits)

lemma animateEffect_invariant:
  "animateEffect t s = Some s' \<Longrightarrow> rafQueue s = [] \<Longrightarrow> isPlayingRef s \<Longrightarrow> surfaceActive s \<Longrightarrow>
     schedOk s' \<and> surfaceActive s'"
  by (auto simp: animateEffect_def advanceClock_def renderScene_def requestAnimationFrame_def
        schedOk_iff surfaceActive_def Let_def split: option.splits prod.splits if_splits)

lemma animatePlay_invariant:
  "rafQueue s = [] \<Longrightarrow> isPlayingRef s \<Longrightarrow> surfaceActive s \<Longrightarrow>
     schedOk (animatePlay t s) \<and> surfaceActive (animatePlay t s)"
  by (auto simp: animatePlay_def advanceClock_def requestAnimationFrame_def
        schedOk_iff surfaceActive_def Let_def split: option.splits prod.splits if_splits)

lemma runFrame_invariant:
  assumes "runFrame t s = Some s'" "schedOk s" "surfaceActive s"
  shows "schedOk s' \<and> surfaceActive s'"
proof (cases "rafQueue s")
  case Nil
  with assms show ?thesis
    by (auto simp: runFrame_def schedOk_iff surfaceActive_def)
next
  case (Cons x xs)
  with assms(2) obtain i cb where q: "rafQueue s = [(i, cb)]" and pl: "isPlayingRef s"
    by (auto simp: schedOk_iff split: list.splits prod.splits)
  let ?s0 = "s\<lparr>rafQueue := []\<rparr>"
  have s0: "rafQueue ?s0 = []" "isPlayingRef ?s0" "surfaceActive ?s0"
    using pl assms(3) by (simp_all add: surfaceActive_def)
  from assms(1) q have "runCallback t cb ?s0 = Some s'"
    by (simp add: runFrame_def split: option.splits)
  then show ?thesis
    using animateEffect_invariant [OF _ s0] animatePlay_invariant [OF s0, of t]
    by (cases cb) (auto simp: runCallback_def)
qed

lemma step_invariant:
  "step c s = Some s' \<Longrightarrow> schedOk s \<Longrightarrow> surfaceActive s \<Longrightarrow> schedOk s' \<and> surfaceActive s'"
  using play_invariant pause_invariant reset_invariant setTime_invariant
    setPlaybackSpeed_invariant updateUniform_invariant runFrame_invariant
  by (cases c) (auto simp: step_def)

lemma exec_invariant:
  "exec cs s = Some s' \<Longrightarrow> schedOk s \<Longrightarrow> surfaceActive s \<Longrightarrow> schedOk s' \<and> surfaceActive s'"
proof (induction cs arbitrary: s)
  case Nil
  then show ?case by simp
next
  case (Cons c cs)
  then obtain s1 where a: "step c s = Some s1" and b: "exec cs s1 = Some s'"
    by (auto split: option.splits)
  from step_invariant [OF a Cons.prems(2,3)] Cons.IH [OF b] show ?case by blast
qed

lemma first_tick_from_stopped:
  assumes "schedOk s" "surfaceActive s" "\<not> isPlayingRef s"
  shows "\<exists>s'. runFrame ts (play s) = Some s'
           \<and> onFrameCalls s' = onFrameCalls s @ [(timeRef s, 0)]
           \<and> timeRef s' = timeRef s \<and> renderCalls s' = renderCalls s + 1"
proof -
  from assms(1,3) have q: "rafQueue s = []"
    by (auto simp: schedOk_iff split: list.splits prod.splits)
  with assms(2,3) show ?thesis
    by (auto simp: runFrame_def runCallback_def play_def animatePlay_def advanceClock_def
          requestAnimationFrame_def surfaceActive_def Let_def split: prod.splits)
qed


lemma loop_first_tick_from_stopped:
  "\<not> loopIsPlayingRef l \<Longrightarrow>
     loopOnFrameCalls (loopAnimate ts (loopPlay l)) = loopOnFrameCalls l @ [(loopTimeRef l, 0)]
     \<and> loopTimeRef (loopAnimate ts (loopPlay l)) = loopTimeRef l"
  by (simp add: loopPlay_def loopAnimate_def loopRequestFrame_def loopRender_def Let_def)

text \<open>
  C5, as stated: after every call sequence ending in \<open>play\<close> the first tick computes
  delta 0. With auto-play on, a frame at 0 ms, then \<open>play\<close> (a no-op while playing) and
  a frame at 1000 ms: the tick after that \<open>play\<close> reports delta 1.
\<close>

theorem play_while_playing_counterexample:
  "exec [Frame 0, Play, Frame 1000] (mounted exampleProps (exampleEnv 640 480)) \<noteq> None
   \<and> onFrameCalls (after [Frame 0, Play, Frame 1000] exampleProps (exampleEnv 640 480)) =
     [(0, 0), (1, 1)]"
  by (simp add: mount_unfold call_unfold)

text \<open>
  C5, amended: for every call sequence on a mounted component that leaves it stopped
  (in particular one ending in \<open>pause\<close>), \<open>play\<close> followed by a frame at any timestamp
  runs exactly one tick, and that tick reports delta 0 and leaves the clock where it
  was; the same holds for the hook's \<open>play\<close> and \<open>animate\<close>. A \<open>play\<close> issued while
  already playing is a no-op and does not reset the last-tick reference.
\<close>

theorem first_tick_after_play:
  assumes "mount p e = Some s0" and "exec cs s0 = Some s" and "\<not> isPlayingRef s"
    and "\<not> loopIsPlayingRef l"
  shows "(\<exists>s'. exec [Play, Frame ts] s = Some s'
            \<and> onFrameCalls s' = onFrameCalls s @ [(timeRef s, 0)]
            \<and> timeRef s' = timeRef s)
       \<and> loopOnFrameCalls (loopAnimate ts (loopPlay l)) =
           loopOnFrameCalls l @ [(loopTimeRef l, 0)]
       \<and> loopTimeRef (loopAnimate ts (loopPlay l)) = loopTimeRef l"
proof -
  from mount_invariant [OF assms(1)] exec_invariant [OF assms(2)]
  have "schedOk s" "surfaceActive s" by blast+
  from first_tick_from_stopped [OF this assms(3), of ts]
    loop_first_tick_from_stopped [OF assms(4), of ts]
  show ?thesis by (auto simp: step_def)
qed

theorem first_tick_after_play_witness:
  "mount exampleProps (exampleEnv 640 480) \<noteq> None
   \<and> exec [Frame 0, Frame 1000, Pause] (mounted exampleProps (exampleEnv 640 480)) \<noteq> None
   \<and> \<not> isPlayingRef (after [Frame 0, Frame 1000, Pause] exampleProps (exampleEnv 640 480))
   \<and> \<not> loopIsPlayingRef exampleLoop
   \<and> onFrameCalls (after [Frame 0, Frame 1000, Pause] exampleProps (exampleEnv 640 480)) =
       [(0, 0), (1, 1)]
   \<and> exec [Play, Frame 60000]
        (after [Frame 0, Frame 1000, Pause] exampleProps (exampleEnv 640 480)) \<noteq> None
   \<and> onFrameCalls
        (the (exec [Play, Frame 60000]
                (after [Frame 0, Frame 1000, Pause] exampleProps (exampleEnv 640 480)))) =
       [(0, 0), (1, 1), (1, 0)]
   \<and> loopOnFrameCalls (loopAnimate 60000 (loopPlay exampleLoop)) = [(0, 0)]"
proof -
  let ?m = "mounted exampleProps (exampleEnv 640 480)"
  let ?s = "after [Frame 0, Frame 1000, Pause] exampleProps (exampleEnv 640 480)"
  have m: "mount exampleProps (exampleEnv 640 480) \<noteq> None"
    by (simp add: mount_unfold)
  then have m': "mount exampleProps (exampleEnv 640 480) = Some ?m"
    by (auto simp: mounted_def)
  have x: "exec [Frame 0, Frame 1000, Pause] ?m \<noteq> None"
    by (simp add: mount_unfold call_unfold)
  then have x': "exec [Frame 0, Frame 1000, Pause] ?m = Some ?s"
    by (auto simp: after_def)
  have st: "\<not> isPlayingRef ?s" "onFrameCalls ?s = [(0, 0), (1, 1)]" "timeRef ?s = 1"
    by (simp_all add: mount_unfold call_unfold)
  have l: "\<not> loopIsPlayingRef exampleLoop" "loopOnFrameCalls exampleLoop = []"
    "loopTimeRef exampleLoop = 0"
    by (simp_all add: exampleLoop_def)
  from first_tick_after_play [OF m' x' st(1) l(1), of 60000] st(2,3) l(2,3)
  have "exec [Play, Frame 60000] ?s \<noteq> None"
    and "onFrameCalls (the (exec [Play, Frame 60000] ?s)) = [(0, 0), (1, 1), (1, 0)]"
    and "loopOnFrameCalls (loopAnimate 60000 (loopPlay exampleLoop)) = [(0, 0)]"
    by auto
  with m x st l show ?thesis by blast
qed

section \<open>Clock monotonicity\<close>

lemma animateEffect_clockStep: "animateEffect t s = Some s' \<Longrightarrow> clockStep t s s'"
  by (auto simp: animateEffect_def advanceClock_def clockStep_def tickDelta_def renderScene_def
        requestAnimationFrame_def Let_def split: if_splits option.splits prod.splits)

lemma animatePlay_clockStep: "clockStep t s (animatePlay t s)"
  by (auto simp: animatePlay_def advanceClock_def clockStep_def tickDelta_def
        requestAnimationFrame_def Let_def split: if_splits option.splits prod.splits)

lemma clockStep_refl: "clockStep t s s"
  by (simp add: clockStep_def)

lemma clockStep_trans: "clockStep t s s1 \<Longrightarrow> clockStep t s1 s2 \<Longrightarrow> clockStep t s s2"
  by (auto simp: clockStep_def tickDelta_def)

lemma runCallbacks_clockStep: "runCallbacks t cbs s = Some s' \<Longrightarrow> clockStep t s s'"
proof (induction cbs arbitrary: s)
  case Nil
  then show ?case by (simp add: clockStep_refl)
next
  case (Cons cb cbs)
  then obtain s1 where a: "runCallback t cb s = Some s1" and b: "runCallbacks t cbs s1 = Some s'"
    by (auto split: option.splits)
  from a have "clockStep t s s1"
    by (cases cb) (auto simp: runCallback_def animateEffect_clockStep animatePlay_clockStep)
  with Cons.IH [OF b] show ?case by (rule clockStep_trans [rotated])
qed

lemma runFrame_clockStep: "runFrame t s = Some s' \<Longrightarrow> clockStep t s s'"
  using runCallbacks_clockStep [of t "map snd (rafQueue s)" "s\<lparr>rafQueue := []\<rparr>" s']
  by (simp add: runFrame_def clockStep_def tickDelta_def)

lemma runFrames_related:
  assumes refl: "\<And>a. R a a"
    and trans: "\<And>a b c. R a b \<Longrightarrow> R b c \<Longrightarrow> R a c"
    and adv: "\<And>a l t. l \<le> t \<Longrightarrow> R a (a + (t - l) / 1000 * v)"
  shows "runFrames tss s = Some ss \<Longrightarrow> sorted tss \<Longrightarrow> playbackSpeedRef s = v \<Longrightarrow>
         (\<forall>l. lastTimestampRef s = Some l \<longrightarrow> (\<forall>t\<in>set tss. l \<le> t)) \<Longrightarrow>
         sorted_wrt R (timeRef s # map timeRef ss)"
proof (induction tss arbitrary: s ss)
  case Nil
  then show ?case by simp
next
  case (Cons t tss)
  from Cons.prems(1) obtain s1 rest where f: "runFrame t s = Some s1"
    and r: "runFrames tss s1 = Some rest" and ss: "ss = s1 # rest"
    by (auto split: option.splits)
  have cs: "clockStep t s s1" by (rule runFrame_clockStep [OF f])
  have v1: "playbackSpeedRef s1 = v" using cs Cons.prems(3) by (simp add: clockStep_def)
  have le: "\<forall>l. lastTimestampRef s1 = Some l \<longrightarrow> (\<forall>u\<in>set tss. l \<le> u)"
    using cs Cons.prems(2,4) by (auto simp: clockStep_def)
  have st: "sorted tss" using Cons.prems(2) by simp
  have ih: "sorted_wrt R (timeRef s1 # map timeRef rest)"
    by (rule Cons.IH [OF r st v1 le])
  have step: "R (timeRef s) (timeRef s1)"
  proof -
    from cs consider "timeRef s1 = timeRef s" | "timeRef s1 = timeRef s + tickDelta t s"
      by (auto simp: clockStep_def)
    then show ?thesis
    proof cases
      case 1
      then show ?thesis by (simp add: refl)
    next
      case 2
      show ?thesis
      proof (cases "lastTimestampRef s")
        case None
        with 2 show ?thesis by (simp add: tickDelta_def refl)
      next
        case (Some l)
        with Cons.prems(4) have "l \<le> t" by simp
        from adv [OF this, of "timeRef s"] 2 Some Cons.prems(3) show ?thesis
          by (simp add: tickDelta_def)
      qed
    qed
  qed
  have "\<forall>y\<in>set (map timeRef rest). R (timeRef s) y"
    using ih step trans by auto
  with ih step show ?case by (simp add: ss)
qed

lemma loopAnimate_clock:
  "loopPlaybackSpeedRef (loopAnimate t l) = loopPlaybackSpeedRef l \<and>
   (loopTimeRef (loopAnimate t l) = loopTimeRef l \<and>
      loopLastTimestampRef (loopAnimate t l) = loopLastTimestampRef l
    \<or> loopLastTimestampRef (loopAnimate t l) = Some t \<and>
      loopTimeRef (loopAnimate t l) =
        loopTimeRef l +
          (t - (case loopLastTimestampRef l of None \<Rightarrow> t | Some u \<Rightarrow> u)) / 1000 *
            loopPlaybackSpeedRef l)"
  by (simp add: loopAnimate_def loopRequestFrame_def loopRender_def Let_def)

lemma loopTicks_related:
  assumes refl: "\<And>a. R a a"
    and trans: "\<And>a b c. R a b \<Longrightarrow> R b c \<Longrightarrow> R a c"
    and adv: "\<And>a u t. u \<le> t \<Longrightarrow> R a (a + (t - u) / 1000 * v)"
  shows "sorted tss \<Longrightarrow> loopPlaybackSpeedRef l = v \<Longrightarrow>
         (\<forall>u. loopLastTimestampRef l = Some u \<longrightarrow> (\<forall>t\<in>set tss. u \<le> t)) \<Longrightarrow>
         sorted_wrt R (loopTimeRef l # map loopTimeRef (loopTicks tss l))"
proof (induction tss arbitrary: l)
  case Nil
  then show ?case by simp
next
  case (Cons t tss)
  let ?l1 = "loopAnimate t l"
  note c = loopAnimate_clock [of t l]
  have v1: "loopPlaybackSpeedRef ?l1 = v" using c Cons.prems(2) by simp
  have le: "\<forall>u. loopLastTimestampRef ?l1 = Some u \<longrightarrow> (\<forall>x\<in>set tss. u \<le> x)"
    using c Cons.prems(1,3) by auto
  have st: "sorted tss" using Cons.prems(1) by simp
  have ih: "sorted_wrt R (loopTimeRef ?l1 # map loopTimeRef (loopTicks tss ?l1))"
    by (rule Cons.IH [OF st v1 le])
  have step: "R (loopTimeRef l) (loopTimeRef ?l1)"
  proof (cases "loopTimeRef ?l1 = loopTimeRef l")
    case True
    then show ?thesis by (simp add: refl)
  next
    case False
    with c have eq: "loopTimeRef ?l1 =
        loopTimeRef l + (t - (case loopLastTimestampRef l of None \<Rightarrow> t | Some u \<Rightarrow> u)) / 1000 * v"
      using Cons.prems(2) by auto
    show ?thesis
    proof (cases "loopLastTimestampRef l")
      case None
      with eq show ?thesis by (simp add: refl)
    next
      case (Some u)
      with Cons.prems(3) have "u \<le> t" by simp
      from adv [OF this, of "loopTimeRef l"] eq Some show ?thesis by simp
    qed
  qed
  have "\<forall>y\<in>set (map loopTimeRef (loopTicks tss ?l1)). R (loopTimeRef l) y"
    using ih step trans by auto
  with ih step show ?case by simp
qed


text \<open>
  C6: over frames with non-decreasing timestamps, none earlier than the last tick
  already recorded, the clock after each frame is non-decreasing at speed 1,
  non-increasing at speed -1 and constant at speed 0. This holds for the component's
  frames and for the ticks of the hook.
\<close>

theorem clock_monotone:
  assumes "sorted tss"
    and "runFrames tss s = Some ss"
    and "\<forall>u. lastTimestampRef s = Some u \<longrightarrow> (\<forall>t\<in>set tss. u \<le> t)"
    and "\<forall>u. loopLastTimestampRef l = Some u \<longrightarrow> (\<forall>t\<in>set tss. u \<le> t)"
  shows "(playbackSpeedRef s = 1 \<longrightarrow> sorted (timeRef s # map timeRef ss))
       \<and> (playbackSpeedRef s = - 1 \<longrightarrow> sorted (rev (timeRef s # map timeRef ss)))
       \<and> (playbackSpeedRef s = 0 \<longrightarrow> map timeRef ss = replicate (length ss) (timeRef s))
       \<and> (loopPlaybackSpeedRef l = 1 \<longrightarrow>
            sorted (loopTimeRef l # map loopTimeRef (loopTicks tss l)))
       \<and> (loopPlaybackSpeedRef l = - 1 \<longrightarrow>
            sorted (rev (loopTimeRef l # map loopTimeRef (loopTicks tss l))))
       \<and> (loopPlaybackSpeedRef l = 0 \<longrightarrow>
            map loopTimeRef (loopTicks tss l) =
              replicate (length (loopTicks tss l)) (loopTimeRef l))"
proof (intro conjI impI)
  assume v: "playbackSpeedRef s = 1"
  have "sorted_wrt (\<le>) (timeRef s # map timeRef ss)"
    by (rule runFrames_related [where v = 1, OF _ _ _ assms(2,1) v assms(3)]) auto
  then show "sorted (timeRef s # map timeRef ss)" by simp
next
  assume v: "playbackSpeedRef s = - 1"
  have "sorted_wrt (\<lambda>a b. b \<le> a) (timeRef s # map timeRef ss)"
    by (rule runFrames_related [where v = "- 1", OF _ _ _ assms(2,1) v assms(3)]) auto
  then have "sorted_wrt (\<le>) (rev (timeRef s # map timeRef ss))"
    unfolding sorted_wrt_rev .
  then show "sorted (rev (timeRef s # map timeRef ss))" by simp
next
  assume v: "playbackSpeedRef s = 0"
  have "sorted_wrt (=) (timeRef s # map timeRef ss)"
    by (rule runFrames_related [where v = 0, OF _ _ _ assms(2,1) v assms(3)]) auto
  then have "\<forall>y\<in>set (map timeRef ss). y = timeRef s" by auto
  then show "map timeRef ss = replicate (length ss) (timeRef s)"
    by (simp add: map_replicate_const [symmetric] cong: map_cong)
next
  assume v: "loopPlaybackSpeedRef l = 1"
  have "sorted_wrt (\<le>) (loopTimeRef l # map loopTimeRef (loopTicks tss l))"
    by (rule loopTicks_related [where v = 1, OF _ _ _ assms(1) v assms(4)]) auto
  then show "sorted (loopTimeRef l # map loopTimeRef (loopTicks tss l))" by simp
next
  assume v: "loopPlaybackSpeedRef l = - 1"
  have "sorted_wrt (\<lambda>a b. b \<le> a) (loopTimeRef l # map loopTimeRef (loopTicks tss l))"
    by (rule loopTicks_related [where v = "- 1", OF _ _ _ assms(1) v assms(4)]) auto
  then have "sorted_wrt (\<le>) (rev (loopTimeRef l # map loopTimeRef (loopTicks tss l)))"
    unfolding sorted_wrt_rev .
  then show "sorted (rev (loopTimeRef l # map loopTimeRef (loopTicks tss l)))" by simp
next
  assume v: "loopPlaybackSpeedRef l = 0"
  have "sorted_wrt (=) (loopTimeRef l # map loopTimeRef (loopTicks tss l))"
    by (rule loopTicks_related [where v = 0, OF _ _ _ assms(1) v assms(4)]) auto
  then have "\<forall>y\<in>set (map loopTimeRef (loopTicks tss l)). y = loopTimeRef l" by auto
  then show "map loopTimeRef (loopTicks tss l) =
               replicate (length (loopTicks tss l)) (loopTimeRef l)"
    by (simp add: map_replicate_const [symmetric] cong: map_cong)
qed

theorem clock_monotone_witness:
  "sorted [0, 1000, 2500 :: real]
   \<and> runFrames [0, 1000, 2500] (mounted exampleProps (exampleEnv 640 480)) \<noteq> None
   \<and> lastTimestampRef (mounted exampleProps (exampleEnv 640 480)) = None
   \<and> playbackSpeedRef (mounted exampleProps (exampleEnv 640 480)) = 1
   \<and> map timeRef (the (runFrames [0, 1000, 2500] (mounted exampleProps (exampleEnv 640 480)))) =
       [0, 1, 5 / 2]
   \<and> sorted (timeRef (mounted exampleProps (exampleEnv 640 480)) #
        map timeRef (the (runFrames [0, 1000, 2500] (mounted exampleProps (exampleEnv 640 480)))))
   \<and> loopLastTimestampRef (loopPlay exampleLoop) = None
   \<and> loopPlaybackSpeedRef (loopPlay exampleLoop) = 1
   \<and> map loopTimeRef (loopTicks [0, 1000, 2500] (loopPlay exampleLoop)) = [0, 1, 5 / 2]
   \<and> sorted (loopTimeRef (loopPlay exampleLoop) #
        map loopTimeRef (loopTicks [0, 1000, 2500] (loopPlay exampleLoop)))"
proof -
  let ?s = "mounted exampleProps (exampleEnv 640 480)"
  let ?l = "loopPlay exampleLoop"
  let ?tss = "[0, 1000, 2500 :: real]"
  have a: "sorted ?tss" by simp
  have b: "runFrames ?tss ?s \<noteq> None"
    and c: "map timeRef (the (runFrames ?tss ?s)) = [0, 1, 5 / 2]"
    by (simp_all add: mount_unfold call_unfold)
  from b have b': "runFrames ?tss ?s = Some (the (runFrames ?tss ?s))" by simp
  have d: "lastTimestampRef ?s = None" "playbackSpeedRef ?s = 1"
    by (simp_all add: mount_unfold)
  have e: "loopLastTimestampRef ?l = None" "loopPlaybackSpeedRef ?l = 1"
    by (simp_all add: loopPlay_def loopRequestFrame_def exampleLoop_def)
  have f: "map loopTimeRef (loopTicks ?tss ?l) = [0, 1, 5 / 2]"
    by (simp add: loopPlay_def loopAnimate_def loopRequestFrame_def loopRender_def
          exampleLoop_def Let_def)
  have h1: "\<forall>u. lastTimestampRef ?s = Some u \<longrightarrow> (\<forall>t\<in>set ?tss. u \<le> t)"
    using d by simp
  have h2: "\<forall>u. loopLastTimestampRef ?l = Some u \<longrightarrow> (\<forall>t\<in>set ?tss. u \<le> t)"
    using e by simp
  from clock_monotone [OF a b' h1 h2] d(2) e(2)
  have "sorted (timeRef ?s # map timeRef (the (runFrames ?tss ?s)))"
    and "sorted (loopTimeRef ?l # map loopTimeRef (loopTicks ?tss ?l))"
    by blast+
  with a b c d e f show ?thesis by blast
qed

end
